theory Spec2Isabelle
  imports Complex_Main
begin

section \<open>JavaScript values used by the dashboard\<close>

text \<open>
  The dashboard is TypeScript running on JavaScript numbers, which are binary64
  floating-point values. The embedding reads a finite number as the rational it
  denotes, and every arithmetic operation rounds its exact result to the nearest
  binary64 value (\<open>fl\<close> below); \<open>NaN\<close> is a value of its own. Results beyond the
  largest binary64 value (the two infinities) are outside the model. Zero has no
  sign: no divisor of this code can be zero, and the one comparison that tells the
  negative zero apart, the one of effect dependencies, is modelled with it in the
  section on the entry form. A numeric field of a record fetched from the backend may
  be missing at run time although its declared type is \<open>number\<close>, so a field holds
  \<open>undefined\<close>, \<open>null\<close> or a number. An optional string is \<open>None\<close> when it is
  \<open>undefined\<close> or \<open>null\<close> (the code never tells the two apart for strings).
\<close>

subsection \<open>Rounding to binary64\<close>

text \<open>The number of binary digits of a natural number.\<close>

fun bit_length :: "nat \<Rightarrow> nat" where
  "bit_length n = (if n = 0 then 0 else Suc (bit_length (n div 2)))"

declare bit_length.simps [simp del]

text \<open>The binary exponent of a positive rational: the \<open>e\<close> with \<open>2^e \<le> x < 2^(e + 1)\<close>.\<close>

definition floor_log2 :: "rat \<Rightarrow> int" where
  "floor_log2 x =
     (if x \<ge> 1 then int (bit_length (nat \<lfloor>x\<rfloor>)) - 1
      else - int (bit_length (nat \<lceil>1 / x\<rceil> - 1)))"

definition pow2 :: "int \<Rightarrow> rat" where
  "pow2 e = (if e \<ge> 0 then 2 ^ nat e else 1 / 2 ^ nat (- e))"

text \<open>The nearest integer, a tie going to the even one.\<close>

definition round_even :: "rat \<Rightarrow> int" where
  "round_even y =
     (let f = \<lfloor>y\<rfloor>; d = y - of_int f
      in if d < 1 / 2 then f
         else if d > 1 / 2 then f + 1
         else if even f then f else f + 1)"

text \<open>
  The binary64 value nearest to \<open>x\<close>: 53 significant binary digits, exponents down to
  \<open>-1022\<close> (below that the spacing stays \<open>2^-1074\<close>), ties to even.
\<close>

definition fl :: "rat \<Rightarrow> rat" where
  "fl x =
     (if x = 0 then 0
      else (let q = pow2 (max (floor_log2 \<bar>x\<bar>) (- 1022) - 52)
            in of_int (round_even (x / q)) * q))"

subsection \<open>Numbers and fields\<close>

datatype number = Fin rat | NaN

datatype jsval = Undefined | Null | Number number

text \<open>\<open>parseFloat(v as any)\<close>: the argument is turned into text and read back.\<close>

fun parseFloat :: "jsval \<Rightarrow> number" where
  "parseFloat Undefined = NaN"
| "parseFloat Null = NaN"
| "parseFloat (Number n) = n"

text \<open>\<open>n || 0\<close> on a number: \<open>NaN\<close> and zero are falsy.\<close>

fun or_zero :: "number \<Rightarrow> rat" where
  "or_zero (Fin r) = r"
| "or_zero NaN = 0"

text \<open>Truthiness of a number, of a field and of an optional string.\<close>

fun truthy_number :: "number \<Rightarrow> bool" where
  "truthy_number (Fin r) = (r \<noteq> 0)"
| "truthy_number NaN = False"

fun truthy :: "jsval \<Rightarrow> bool" where
  "truthy (Number n) = truthy_number n"
| "truthy _ = False"

fun truthy_string :: "string option \<Rightarrow> bool" where
  "truthy_string None = False"
| "truthy_string (Some s) = (s \<noteq> [])"

text \<open>\<open>s || fallback\<close> on an optional string.\<close>

definition or_string :: "string option \<Rightarrow> string \<Rightarrow> string" where
  "or_string s fallback = (if truthy_string s then the s else fallback)"

text \<open>Arithmetic on numbers: the exact result is rounded; \<open>NaN\<close> is contagious.\<close>

fun add_number :: "number \<Rightarrow> number \<Rightarrow> number" where
  "add_number (Fin a) (Fin b) = Fin (fl (a + b))"
| "add_number _ _ = NaN"

fun sub_number :: "number \<Rightarrow> number \<Rightarrow> number" where
  "sub_number (Fin a) (Fin b) = Fin (fl (a - b))"
| "sub_number _ _ = NaN"

fun mul_number :: "number \<Rightarrow> number \<Rightarrow> number" where
  "mul_number (Fin a) (Fin b) = Fin (fl (a * b))"
| "mul_number _ _ = NaN"

text \<open>
  Division. A zero divisor would give an infinity or \<open>NaN\<close> in JavaScript; every
  division of the modelled code is guarded against it, and the model answers \<open>NaN\<close>
  there.
\<close>

fun div_number :: "number \<Rightarrow> number \<Rightarrow> number" where
  "div_number (Fin a) (Fin b) = (if b = 0 then NaN else Fin (fl (a / b)))"
| "div_number _ _ = NaN"

text \<open>\<open>a > b\<close> on numbers: false as soon as one side is \<open>NaN\<close>.\<close>

fun gt_number :: "number \<Rightarrow> number \<Rightarrow> bool" where
  "gt_number (Fin a) (Fin b) = (a > b)"
| "gt_number _ _ = False"

text \<open>The numeric reading of a field inside \<open>sum + field\<close>.\<close>

fun to_number :: "jsval \<Rightarrow> number" where
  "to_number Undefined = NaN"
| "to_number Null = Fin 0"
| "to_number (Number n) = n"

text \<open>
  \<open>parseFloat(x.toFixed(d))\<close>. \<open>toFixed\<close> prints the decimal with \<open>d\<close> fraction digits
  nearest to the exact value of \<open>x\<close>, a tie going away from zero, and from \<open>10^21\<close> on
  the number itself; \<open>parseFloat\<close> reads the printed decimal back as the nearest
  binary64 value.
\<close>

definition toFixed :: "nat \<Rightarrow> rat \<Rightarrow> rat" where
  "toFixed d x =
     (if \<bar>x\<bar> \<ge> 10 ^ 21 then x
      else if x < 0 then fl (- (of_int \<lfloor>(- x) * 10 ^ d + 1 / 2\<rfloor> / 10 ^ d))
      else fl (of_int \<lfloor>x * 10 ^ d + 1 / 2\<rfloor> / 10 ^ d))"

text \<open>\<open>parseFloat(n.toFixed(d))\<close> on a number that may be \<open>NaN\<close>.\<close>

fun toFixed_number :: "nat \<Rightarrow> number \<Rightarrow> number" where
  "toFixed_number d (Fin r) = Fin (toFixed d r)"
| "toFixed_number d NaN = NaN"

text \<open>
  A \<open>Record<string, T>\<close> that the code fills inside a loop is an association list of
  its own properties in the order in which the keys were first written, which is the
  order \<open>Object.entries\<close> reports for keys that are not integer-like. The object is
  created as \<open>{}\<close>, so a key that names a member of \<open>Object.prototype\<close> reads that
  member before any own property of this name exists.
\<close>

definition inherited_keys :: "string list" where
  "inherited_keys =
     [''constructor'', ''__defineGetter__'', ''__defineSetter__'', ''hasOwnProperty'',
      ''__lookupGetter__'', ''__lookupSetter__'', ''isPrototypeOf'',
      ''propertyIsEnumerable'', ''toString'', ''valueOf'', ''__proto__'',
      ''toLocaleString'']"

definition inherited :: "string \<Rightarrow> bool" where
  "inherited k = (k \<in> set inherited_keys)"

text \<open>A call of something that is no function throws.\<close>

datatype error = TypeError

text \<open>
  \<open>Array.prototype.sort(cmp)\<close> is stable; the model is the stable insertion sort
  that moves an element to the right while the comparator answers a positive number.
\<close>

fun sort_insert :: "('a \<Rightarrow> 'a \<Rightarrow> number) \<Rightarrow> 'a \<Rightarrow> 'a list \<Rightarrow> 'a list" where
  "sort_insert cmp x [] = [x]"
| "sort_insert cmp x (y # ys) =
     (if gt_number (cmp x y) (Fin 0) then y # sort_insert cmp x ys else x # y # ys)"

fun js_sort :: "('a \<Rightarrow> 'a \<Rightarrow> number) \<Rightarrow> 'a list \<Rightarrow> 'a list" where
  "js_sort cmp [] = []"
| "js_sort cmp (x # xs) = sort_insert cmp x (js_sort cmp xs)"

section \<open>Domain records\<close>

text \<open>
  The local calendar reading of a JavaScript \<open>Date\<close>: \<open>getMonth\<close> counts from 0,
  \<open>msOfDay\<close> is the time elapsed since local midnight.
\<close>

record LocalDate =
  getFullYear :: int
  getMonth :: nat
  getDate :: nat
  msOfDay :: nat

text \<open>
  A flight. \<open>date\<close> holds what \<open>new Date(flight.date)\<close> reads, \<open>None\<close> for an
  invalid date. The identity field is \<open>id\<close> in the source.
\<close>

record Flight =
  flight_id :: string
  aircraftId :: "string option"
  pilotId :: "string option"
  date :: "LocalDate option"
  tachStart :: jsval
  tachEnd :: jsval
  hobbsTime :: jsval
  fuelAdded :: jsval
  oilAdded :: jsval
  passengerCount :: jsval
  route :: "string option"
  squawks :: "string option"
  "notes" :: "string option"
  createdAt :: "string option"
  updatedAt :: "string option"
  category :: "string option"
  departureTime :: "string option"
  pilotName :: "string option"

text \<open>
  The aircraft fields that the summaries read; \<open>id\<close>, \<open>make\<close> and \<open>model\<close> of the
  source carry the prefix \<open>aircraft_\<close> here.
\<close>

record Aircraft =
  aircraft_id :: string
  tailNumber :: "string option"
  aircraft_make :: "string option"
  aircraft_model :: "string option"

section \<open>Flight summary overview\<close>

subsection \<open>Realtime handlers of the flights table\<close>

text \<open>
  A row change delivered by the realtime subscription, in the wire shape. The columns
  \<open>id\<close>, \<open>date\<close>, \<open>route\<close>, \<open>squawks\<close>, \<open>notes\<close> and \<open>category\<close> of the source carry the
  prefix \<open>row_\<close> here.
\<close>

record FlightRow =
  row_id :: string
  aircraft_id_col :: "string option"
  pilot_id :: "string option"
  row_date :: "LocalDate option"
  tach_start :: jsval
  tach_end :: jsval
  hobbs_time :: jsval
  fuel_added :: jsval
  oil_added :: jsval
  passenger_count :: jsval
  row_route :: "string option"
  row_squawks :: "string option"
  row_notes :: "string option"
  created_at :: "string option"
  updated_at :: "string option"
  row_category :: "string option"
  departure_time :: "string option"
  pilot_name :: "string option"

text \<open>The object literal that both \<open>onInsert\<close> and \<open>onUpdate\<close> build from a row.\<close>

definition fromRow :: "FlightRow \<Rightarrow> Flight" where
  "fromRow r =
     \<lparr> flight_id = row_id r,
       aircraftId = aircraft_id_col r,
       pilotId = pilot_id r,
       date = row_date r,
       tachStart = tach_start r,
       tachEnd = tach_end r,
       hobbsTime = hobbs_time r,
       fuelAdded = fuel_added r,
       oilAdded = oil_added r,
       passengerCount = passenger_count r,
       route = row_route r,
       squawks = row_squawks r,
       notes = row_notes r,
       createdAt = created_at r,
       updatedAt = updated_at r,
       category = row_category r,
       departureTime = departure_time r,
       pilotName = pilot_name r \<rparr>"

definition onInsert :: "FlightRow \<Rightarrow> Flight list \<Rightarrow> Flight list" where
  "onInsert newFlight prevFlights =
     (let exists = list_ex (\<lambda>flight. flight_id flight = row_id newFlight) prevFlights
      in if exists then prevFlights else prevFlights @ [fromRow newFlight])"

definition onUpdate :: "FlightRow \<Rightarrow> Flight list \<Rightarrow> Flight list" where
  "onUpdate updatedFlight prevFlights =
     map (\<lambda>flight. if flight_id flight = row_id updatedFlight
                    then fromRow updatedFlight else flight) prevFlights"

definition onDelete :: "FlightRow \<Rightarrow> Flight list \<Rightarrow> Flight list" where
  "onDelete deletedFlight prevFlights =
     filter (\<lambda>flight. flight_id flight \<noteq> row_id deletedFlight) prevFlights"

text \<open>The notifications of the table, applied in arrival order.\<close>

datatype notification = Insert FlightRow | Update FlightRow | Delete FlightRow

fun apply_notification :: "notification \<Rightarrow> Flight list \<Rightarrow> Flight list" where
  "apply_notification (Insert r) fs = onInsert r fs"
| "apply_notification (Update r) fs = onUpdate r fs"
| "apply_notification (Delete r) fs = onDelete r fs"

fun apply_all :: "notification list \<Rightarrow> Flight list \<Rightarrow> Flight list" where
  "apply_all [] fs = fs"
| "apply_all (n # ns) fs = apply_all ns (apply_notification n fs)"

subsection \<open>Duration of one flight\<close>

text \<open>
  The three summaries of the overview (aircraft, pilot, route) each repeat the same
  lines for one flight: read the three meters with \<open>parseFloat(...) || 0\<close>, clamp the
  tach difference at zero, and prefer a truthy hobbs time.
\<close>

definition tachDiff :: "Flight \<Rightarrow> rat" where
  "tachDiff flight =
     (let tachStart' = or_zero (parseFloat (tachStart flight));
          tachEnd' = or_zero (parseFloat (tachEnd flight))
      in if tachEnd' > tachStart' then fl (tachEnd' - tachStart') else 0)"

definition hours :: "Flight \<Rightarrow> rat" where
  "hours flight =
     (let hobbsTime' = or_zero (parseFloat (hobbsTime flight))
      in if hobbsTime' \<noteq> 0 then hobbsTime' else tachDiff flight)"

subsection \<open>Grouping by aircraft\<close>

text \<open>Appending a value to the array of an own key, creating the array on first use.\<close>

fun push_own :: "string \<Rightarrow> 'a \<Rightarrow> (string \<times> 'a list) list \<Rightarrow> (string \<times> 'a list) list" where
  "push_own k v [] = [(k, [v])]"
| "push_own k v ((k', vs) # rest) =
     (if k = k' then (k', vs @ [v]) # rest else (k', vs) # push_own k v rest)"

text \<open>
  \<open>if (!byAircraft[k]) byAircraft[k] = []; byAircraft[k].push(flight)\<close>. For an
  inherited key the test reads the inherited member, which is truthy, no array is
  created, and the member has no \<open>push\<close> to call.
\<close>

definition push_group ::
  "string \<Rightarrow> 'a \<Rightarrow> (string \<times> 'a list) list \<Rightarrow> error + (string \<times> 'a list) list" where
  "push_group k v groups = (if inherited k then Inl TypeError else Inr (push_own k v groups))"

fun flightsByAircraft_loop ::
  "Flight list \<Rightarrow> (string \<times> Flight list) list \<Rightarrow> error + (string \<times> Flight list) list" where
  "flightsByAircraft_loop [] byAircraft = Inr byAircraft"
| "flightsByAircraft_loop (flight # rest) byAircraft =
     (if \<not> truthy_string (aircraftId flight) then flightsByAircraft_loop rest byAircraft
      else (case push_group (the (aircraftId flight)) flight byAircraft of
              Inl e \<Rightarrow> Inl e
            | Inr byAircraft' \<Rightarrow> flightsByAircraft_loop rest byAircraft'))"

definition flightsByAircraft :: "Flight list \<Rightarrow> error + (string \<times> Flight list) list" where
  "flightsByAircraft filteredFlights = flightsByAircraft_loop filteredFlights []"

text \<open>
  A row of the aircraft summary; \<open>id\<close>, \<open>tailNumber\<close>, \<open>make\<close> and \<open>model\<close> of the source
  carry the prefix \<open>stat_\<close> here. The flight count is the length of an array.
\<close>

record AircraftStat =
  stat_id :: string
  stat_tailNumber :: string
  stat_make :: string
  stat_model :: string
  flightCount :: nat
  totalHours :: rat
  totalTach :: rat
  averageFlightTime :: rat
  averageTachTime :: rat

text \<open>The accumulation of \<open>totalHours\<close> and \<open>totalTach\<close> over the flights of one aircraft.\<close>

fun aircraft_totals :: "Flight list \<Rightarrow> rat \<times> rat \<Rightarrow> rat \<times> rat" where
  "aircraft_totals [] acc = acc"
| "aircraft_totals (flight # rest) (totalHours', totalTach') =
     aircraft_totals rest
       (fl (totalHours' + hours flight), fl (totalTach' + tachDiff flight))"

definition aircraftStat :: "Aircraft list \<Rightarrow> string \<times> Flight list \<Rightarrow> AircraftStat" where
  "aircraftStat aircraft entry =
     (let aircraftId' = fst entry;
          aircraftFlights = snd entry;
          foundAircraft = find (\<lambda>a. aircraft_id a = aircraftId') aircraft;
          (totalHours', totalTach') = aircraft_totals aircraftFlights (0, 0);
          flightCount' = length aircraftFlights;
          averageFlightTime' =
            (if flightCount' > 0 then fl (totalHours' / of_nat flightCount') else 0);
          averageTachTime' =
            (if flightCount' > 0 then fl (totalTach' / of_nat flightCount') else 0)
      in \<lparr> stat_id = aircraftId',
           stat_tailNumber = or_string (Option.bind foundAircraft tailNumber) ''Unknown'',
           stat_make = or_string (Option.bind foundAircraft aircraft_make) ''Unknown'',
           stat_model = or_string (Option.bind foundAircraft aircraft_model) ''Unknown'',
           flightCount = flightCount',
           totalHours = toFixed 1 totalHours',
           totalTach = toFixed 1 totalTach',
           averageFlightTime = toFixed 1 averageFlightTime',
           averageTachTime = toFixed 1 averageTachTime' \<rparr>)"

definition aircraftStats :: "Aircraft list \<Rightarrow> Flight list \<Rightarrow> error + AircraftStat list" where
  "aircraftStats aircraft filteredFlights =
     (case flightsByAircraft filteredFlights of
        Inl e \<Rightarrow> Inl e
      | Inr byAircraft \<Rightarrow> Inr (map (aircraftStat aircraft) byAircraft))"

subsection \<open>Grouping by pilot and by route\<close>

text \<open>
  The running \<open>{count, hours}\<close> of one pilot. A count is a natural number: counting
  by one is exact in binary64 far beyond the length an array can have.
\<close>

record PilotAcc =
  acc_count :: nat
  acc_hours :: rat

text \<open>
  \<open>if (!byPilot[pilot]) byPilot[pilot] = {count: 0, hours: 0};
  byPilot[pilot].count += 1; byPilot[pilot].hours += hours\<close>. For an inherited key the
  test reads the inherited member, no own entry is created, and the two updates write
  to that member: \<open>byPilot\<close> keeps its own properties.
\<close>

fun bump_own_pilot :: "string \<Rightarrow> rat \<Rightarrow> (string \<times> PilotAcc) list \<Rightarrow> (string \<times> PilotAcc) list" where
  "bump_own_pilot k h [] = [(k, \<lparr> acc_count = 0 + 1, acc_hours = fl (0 + h) \<rparr>)]"
| "bump_own_pilot k h ((k', s) # rest) =
     (if k = k'
      then (k', \<lparr> acc_count = acc_count s + 1, acc_hours = fl (acc_hours s + h) \<rparr>) # rest
      else (k', s) # bump_own_pilot k h rest)"

definition bump_pilot :: "string \<Rightarrow> rat \<Rightarrow> (string \<times> PilotAcc) list \<Rightarrow> (string \<times> PilotAcc) list" where
  "bump_pilot k h byPilot = (if inherited k then byPilot else bump_own_pilot k h byPilot)"

fun byPilot_loop :: "Flight list \<Rightarrow> (string \<times> PilotAcc) list \<Rightarrow> (string \<times> PilotAcc) list" where
  "byPilot_loop [] byPilot = byPilot"
| "byPilot_loop (flight # rest) byPilot =
     (let pilot = or_string (pilotName flight) ''Unknown''
      in byPilot_loop rest (bump_pilot pilot (hours flight) byPilot))"

text \<open>
  A row of the pilot summary: \<open>name\<close>, \<open>flights\<close>, \<open>hours\<close> and \<open>averageTime\<close> of the
  source.
\<close>

record PilotStat =
  pilot_name_stat :: string
  pilot_flights :: nat
  pilot_hours :: rat
  pilot_averageTime :: rat

definition pilotStat :: "string \<times> PilotAcc \<Rightarrow> PilotStat" where
  "pilotStat entry =
     (let pilot = fst entry; stats = snd entry;
          averageTime' = (if acc_count stats > 0
                          then fl (acc_hours stats / of_nat (acc_count stats)) else 0)
      in \<lparr> pilot_name_stat = pilot,
           pilot_flights = acc_count stats,
           pilot_hours = toFixed 1 (acc_hours stats),
           pilot_averageTime = toFixed 1 averageTime' \<rparr>)"

definition pilotStats :: "Flight list \<Rightarrow> PilotStat list" where
  "pilotStats filteredFlights =
     js_sort (\<lambda>a b. Fin (fl (of_nat (pilot_flights b) - of_nat (pilot_flights a))))
       (map pilotStat (byPilot_loop filteredFlights []))"

text \<open>
  The running \<open>{count, hours, tach}\<close> of one route; each flight replaces it by a new
  object with the flight added. Reading these three from an inherited member gives
  \<open>undefined\<close>, so here the three can be \<open>NaN\<close>: the count is \<open>None\<close> then.
\<close>

record RouteAcc =
  racc_count :: "nat option"
  racc_hours :: number
  racc_tach :: number

text \<open>A count as a number.\<close>

fun count_number :: "nat option \<Rightarrow> number" where
  "count_number None = NaN"
| "count_number (Some n) = Fin (of_nat n)"

text \<open>The update of an own entry, from \<open>{count: 0, hours: 0, tach: 0}\<close> on first use.\<close>

fun bump_own_route ::
  "string \<Rightarrow> rat \<Rightarrow> rat \<Rightarrow> (string \<times> RouteAcc) list \<Rightarrow> (string \<times> RouteAcc) list" where
  "bump_own_route k h t [] =
     [(k, \<lparr> racc_count = Some (0 + 1), racc_hours = add_number (Fin 0) (Fin h),
            racc_tach = add_number (Fin 0) (Fin t) \<rparr>)]"
| "bump_own_route k h t ((k', s) # rest) =
     (if k = k'
      then (k', \<lparr> racc_count = map_option (\<lambda>c. c + 1) (racc_count s),
                  racc_hours = add_number (racc_hours s) (Fin h),
                  racc_tach = add_number (racc_tach s) (Fin t) \<rparr>) # rest
      else (k', s) # bump_own_route k h t rest)"

text \<open>
  \<open>if (!byRoute[route]) byRoute[route] = {count: 0, hours: 0, tach: 0};
  const current = byRoute[route]; byRoute[route] = {count: current.count + 1, ...}\<close>.
  For an inherited key the test reads the inherited member and \<open>current\<close> is that
  member, whose \<open>count\<close>, \<open>hours\<close> and \<open>tach\<close> are \<open>undefined\<close>: the assignment creates an
  own entry of three \<open>NaN\<close>, and later flights of the key keep it so. The key
  \<open>__proto__\<close> is the exception: assigning to it replaces the prototype of \<open>byRoute\<close>
  and creates no own entry.
\<close>

definition bump_route ::
  "string \<Rightarrow> rat \<Rightarrow> rat \<Rightarrow> (string \<times> RouteAcc) list \<Rightarrow> (string \<times> RouteAcc) list" where
  "bump_route k h t byRoute =
     (if k = ''__proto__'' then byRoute
      else if inherited k \<and> map_of byRoute k = None
        then byRoute @ [(k, \<lparr> racc_count = None, racc_hours = NaN, racc_tach = NaN \<rparr>)]
      else bump_own_route k h t byRoute)"

fun byRoute_loop :: "Flight list \<Rightarrow> (string \<times> RouteAcc) list \<Rightarrow> (string \<times> RouteAcc) list" where
  "byRoute_loop [] byRoute = byRoute"
| "byRoute_loop (flight # rest) byRoute =
     (let route' = or_string (route flight) ''Local''
      in byRoute_loop rest (bump_route route' (hours flight) (tachDiff flight) byRoute))"

text \<open>
  A row of the route summary: \<open>name\<close>, \<open>flights\<close>, \<open>hours\<close>, \<open>tach\<close>, \<open>averageTime\<close> and
  \<open>averageTach\<close> of the source.
\<close>

record RouteStat =
  route_name :: string
  route_flights :: "nat option"
  route_hours :: number
  route_tach :: number
  route_averageTime :: number
  route_averageTach :: number

definition routeStat :: "string \<times> RouteAcc \<Rightarrow> RouteStat" where
  "routeStat entry =
     (let route' = fst entry; stats = snd entry;
          averageTime' = (if gt_number (count_number (racc_count stats)) (Fin 0)
                          then div_number (racc_hours stats) (count_number (racc_count stats))
                          else Fin 0);
          averageTach' = (if gt_number (count_number (racc_count stats)) (Fin 0)
                          then div_number (racc_tach stats) (count_number (racc_count stats))
                          else Fin 0)
      in \<lparr> route_name = route',
           route_flights = racc_count stats,
           route_hours = toFixed_number 1 (racc_hours stats),
           route_tach = toFixed_number 1 (racc_tach stats),
           route_averageTime = toFixed_number 1 averageTime',
           route_averageTach = toFixed_number 1 averageTach' \<rparr>)"

definition routeStats :: "Flight list \<Rightarrow> RouteStat list" where
  "routeStats filteredFlights =
     js_sort (\<lambda>a b. sub_number (count_number (route_flights b)) (count_number (route_flights a)))
       (map routeStat (byRoute_loop filteredFlights []))"

section \<open>Fuel analysis\<close>

text \<open>\<open>typeof v === 'number' ? v : 0\<close>; \<open>NaN\<close> has type number.\<close>

fun number_or_zero :: "jsval \<Rightarrow> number" where
  "number_or_zero (Number n) = n"
| "number_or_zero _ = Fin 0"

text \<open>
  The lines that the aircraft loop and the overall totals of the fuel analysis both run
  for one flight: \<open>hobbsTime || (tachEnd - tachStart)\<close>.
\<close>

definition hoursFlown :: "Flight \<Rightarrow> number" where
  "hoursFlown flight =
     (let hobbsTime' = number_or_zero (hobbsTime flight);
          tachStart' = number_or_zero (tachStart flight);
          tachEnd' = number_or_zero (tachEnd flight)
      in if truthy_number hobbsTime' then hobbsTime' else sub_number tachEnd' tachStart')"

text \<open>
  The overall totals; \<open>totalHours\<close> and \<open>totalFuel\<close> of the source carry the prefix
  \<open>overall_\<close> here.
\<close>

record OverallStats =
  overall_totalHours :: number
  overall_totalFuel :: number
  averageGPH :: number

fun overall_loop :: "Flight list \<Rightarrow> number \<times> number \<Rightarrow> number \<times> number" where
  "overall_loop [] acc = acc"
| "overall_loop (flight # rest) (totalHours', totalFuel') =
     overall_loop rest
       (add_number totalHours' (hoursFlown flight),
        add_number totalFuel' (number_or_zero (fuelAdded flight)))"

definition overallStats :: "Flight list \<Rightarrow> OverallStats" where
  "overallStats flights =
     (let (totalHours', totalFuel') = overall_loop flights (Fin 0, Fin 0);
          averageGPH' = (if gt_number totalHours' (Fin 0)
                         then toFixed_number 2 (div_number totalFuel' totalHours')
                         else Fin 0)
      in \<lparr> overall_totalHours = totalHours', overall_totalFuel = totalFuel',
           averageGPH = averageGPH' \<rparr>)"

section \<open>Route analytics\<close>

text \<open>
  A configured target. \<open>id\<close>, \<open>route\<close>, \<open>aircraftId\<close>, \<open>pilotId\<close>, \<open>month\<close> and \<open>year\<close>
  of the source carry the prefix \<open>target_\<close> here.
\<close>

record RouteTargetTime =
  target_id :: string
  target_route :: string
  targetTime :: jsval
  target_aircraftId :: "string option"
  target_pilotId :: "string option"
  target_month :: jsval
  target_year :: jsval

datatype direction = asc | desc

text \<open>The filter and sort state of the component.\<close>

record Selection =
  selectedMonth :: string
  selectedYear :: string
  selectedAircraft :: string
  selectedPilot :: string
  sortField :: string
  sortDirection :: direction

text \<open>\<open>a === b\<close> on numbers: \<open>NaN\<close> equals nothing.\<close>

fun strict_eq :: "number \<Rightarrow> number \<Rightarrow> bool" where
  "strict_eq (Fin a) (Fin b) = (a = b)"
| "strict_eq _ _ = False"

text \<open>\<open>v === n\<close> for a field \<open>v\<close> and a number \<open>n\<close>.\<close>

fun field_eq :: "jsval \<Rightarrow> number \<Rightarrow> bool" where
  "field_eq (Number a) n = strict_eq a n"
| "field_eq _ n = False"

text \<open>
  The predicate of \<open>flights.filter\<close>. \<open>parseInt\<close> is the host's reading of a string
  as an integer; the month and year of an invalid date are \<open>NaN\<close>.
\<close>

definition flightMonth :: "Flight \<Rightarrow> number" where
  "flightMonth flight =
     (case date flight of None \<Rightarrow> NaN | Some d \<Rightarrow> Fin (of_nat (getMonth d) + 1))"

definition flightYear :: "Flight \<Rightarrow> number" where
  "flightYear flight =
     (case date flight of None \<Rightarrow> NaN | Some d \<Rightarrow> Fin (of_int (getFullYear d)))"

definition flight_selected :: "(string \<Rightarrow> number) \<Rightarrow> Selection \<Rightarrow> Flight \<Rightarrow> bool" where
  "flight_selected parseInt sel flight =
     (let monthMatch = (selectedMonth sel = ''all-months''
                        \<or> strict_eq (flightMonth flight) (parseInt (selectedMonth sel)));
          yearMatch = (selectedYear sel = ''all-years''
                       \<or> strict_eq (flightYear flight) (parseInt (selectedYear sel)));
          aircraftMatch = (selectedAircraft sel = ''all-aircraft''
                           \<or> aircraftId flight = Some (selectedAircraft sel));
          pilotMatch = (selectedPilot sel = ''all-pilots''
                        \<or> pilotId flight = Some (selectedPilot sel))
      in monthMatch \<and> yearMatch \<and> aircraftMatch \<and> pilotMatch)"

text \<open>
  The \<open>reduce\<close> that collects the flights of each route; once its callback has thrown,
  nothing more is collected.
\<close>

definition flightsByRoute :: "Flight list \<Rightarrow> error + (string \<times> Flight list) list" where
  "flightsByRoute filteredFlights =
     foldl (\<lambda>acc flight. case acc of
                           Inl e \<Rightarrow> Inl e
                         | Inr groups \<Rightarrow>
                             push_group (or_string (route flight) ''Unknown'') flight groups)
       (Inr []) filteredFlights"

text \<open>The predicate of \<open>targetTimes.find\<close> for one route.\<close>

definition target_matches ::
  "(string \<Rightarrow> number) \<Rightarrow> Selection \<Rightarrow> string \<Rightarrow> RouteTargetTime \<Rightarrow> bool" where
  "target_matches parseInt sel route' t =
     (target_route t = route'
      \<and> (selectedAircraft sel = ''all-aircraft''
           \<or> target_aircraftId t = Some (selectedAircraft sel)
           \<or> \<not> truthy_string (target_aircraftId t))
      \<and> (selectedPilot sel = ''all-pilots''
           \<or> target_pilotId t = Some (selectedPilot sel)
           \<or> \<not> truthy_string (target_pilotId t))
      \<and> (selectedMonth sel = ''all-months''
           \<or> field_eq (target_month t) (parseInt (selectedMonth sel))
           \<or> \<not> truthy (target_month t))
      \<and> (selectedYear sel = ''all-years''
           \<or> field_eq (target_year t) (parseInt (selectedYear sel))
           \<or> \<not> truthy (target_year t)))"

text \<open>
  Modelled from the spec: the matching rule of target reconciliation in the words of
  the specification, to be compared with the predicate of the code. A target matches
  if its route is the route and, for each of aircraft, pilot, month and year, either
  the target's value is unset or it equals the current filter selection.
\<close>

fun unset :: "jsval \<Rightarrow> bool" where
  "unset Undefined = True"
| "unset Null = True"
| "unset (Number n) = False"

definition spec_target_matches ::
  "(string \<Rightarrow> number) \<Rightarrow> Selection \<Rightarrow> string \<Rightarrow> RouteTargetTime \<Rightarrow> bool" where
  "spec_target_matches parseInt sel route' t =
     (target_route t = route'
      \<and> (target_aircraftId t = None \<or> target_aircraftId t = Some (selectedAircraft sel))
      \<and> (target_pilotId t = None \<or> target_pilotId t = Some (selectedPilot sel))
      \<and> (unset (target_month t) \<or> field_eq (target_month t) (parseInt (selectedMonth sel)))
      \<and> (unset (target_year t) \<or> field_eq (target_year t) (parseInt (selectedYear sel))))"

text \<open>\<open>found?.targetTime || null\<close>: a target time is kept only when it is truthy.\<close>

fun or_null :: "jsval \<Rightarrow> rat option" where
  "or_null (Number (Fin r)) = (if r \<noteq> 0 then Some r else None)"
| "or_null _ = None"

text \<open>
  A row of the analytics table. \<open>route\<close>, \<open>flightCount\<close> and \<open>targetTime\<close> of the source
  carry the prefix \<open>chart_\<close> here; \<open>None\<close> is \<open>null\<close>.
\<close>

record ChartRow =
  chart_route :: string
  chart_flightCount :: nat
  averageTime :: number
  chart_targetTime :: "rat option"
  difference :: "number option"
  percentDiff :: "number option"

definition chartRow ::
  "(string \<Rightarrow> number) \<Rightarrow> RouteTargetTime list \<Rightarrow> Selection \<Rightarrow> string \<times> Flight list \<Rightarrow> ChartRow" where
  "chartRow parseInt targetTimes sel entry =
     (let route' = fst entry;
          routeFlights = snd entry;
          flightCount' = length routeFlights;
          totalTime = foldl (\<lambda>sum f. add_number sum (to_number (hobbsTime f))) (Fin 0) routeFlights;
          averageTime' = (if flightCount' > 0 then div_number totalTime (Fin (of_nat flightCount'))
                          else Fin 0);
          targetTime' = (case find (target_matches parseInt sel route') targetTimes of
                           None \<Rightarrow> None
                         | Some t \<Rightarrow> or_null (targetTime t));
          difference' = (case targetTime' of
                           None \<Rightarrow> None
                         | Some tt \<Rightarrow> Some (sub_number averageTime' (Fin tt)));
          percentDiff' = (case targetTime' of
                            None \<Rightarrow> None
                          | Some tt \<Rightarrow>
                              Some (mul_number (sub_number (div_number averageTime' (Fin tt)) (Fin 1))
                                      (Fin 100)))
      in \<lparr> chart_route = route',
           chart_flightCount = flightCount',
           averageTime = averageTime',
           chart_targetTime = targetTime',
           difference = difference',
           percentDiff = percentDiff' \<rparr>)"

text \<open>The value \<open>a[sortField]\<close> of a row; a name that is no field of the row reads \<open>undefined\<close>.\<close>

datatype cell = CString string | CNumber number | CNull | CUndefined

definition cell_of :: "string \<Rightarrow> ChartRow \<Rightarrow> cell" where
  "cell_of field a =
     (if field = ''route'' then CString (chart_route a)
      else if field = ''flightCount'' then CNumber (Fin (of_nat (chart_flightCount a)))
      else if field = ''averageTime'' then CNumber (averageTime a)
      else if field = ''targetTime''
        then (case chart_targetTime a of None \<Rightarrow> CNull | Some r \<Rightarrow> CNumber (Fin r))
      else if field = ''difference''
        then (case difference a of None \<Rightarrow> CNull | Some n \<Rightarrow> CNumber n)
      else if field = ''percentDiff''
        then (case percentDiff a of None \<Rightarrow> CNull | Some n \<Rightarrow> CNumber n)
      else CUndefined)"

text \<open>
  The numeric reading of a cell in \<open>aValue - bValue\<close>. The subtraction is reached only
  when neither cell is \<open>null\<close> and not both are strings; both cells come from the same
  field, so there it meets two numbers or two \<open>undefined\<close>.
\<close>

fun cell_number :: "cell \<Rightarrow> number" where
  "cell_number (CNumber n) = n"
| "cell_number CNull = Fin 0"
| "cell_number _ = NaN"

text \<open>The comparator of the final sort; \<open>localeCompare\<close> is the host's collation.\<close>

definition compare_rows ::
  "(string \<Rightarrow> string \<Rightarrow> number) \<Rightarrow> Selection \<Rightarrow> ChartRow \<Rightarrow> ChartRow \<Rightarrow> number" where
  "compare_rows localeCompare sel a b =
     (let aValue = cell_of (sortField sel) a;
          bValue = cell_of (sortField sel) b
      in if aValue = CNull \<and> bValue = CNull then Fin 0
         else if aValue = CNull then Fin 1
         else if bValue = CNull then Fin (- 1)
         else (case (aValue, bValue) of
                 (CString x, CString y) \<Rightarrow>
                   (if sortDirection sel = asc then localeCompare x y else localeCompare y x)
               | _ \<Rightarrow>
                   (if sortDirection sel = asc
                    then sub_number (cell_number aValue) (cell_number bValue)
                    else sub_number (cell_number bValue) (cell_number aValue))))"

definition chartData ::
  "(string \<Rightarrow> number) \<Rightarrow> (string \<Rightarrow> string \<Rightarrow> number) \<Rightarrow>
   Flight list \<Rightarrow> RouteTargetTime list \<Rightarrow> Selection \<Rightarrow> error + ChartRow list" where
  "chartData parseInt localeCompare flights targetTimes sel =
     (let filteredFlights = filter (flight_selected parseInt sel) flights
      in case flightsByRoute filteredFlights of
           Inl e \<Rightarrow> Inl e
         | Inr byRoute \<Rightarrow>
             (let routeStats' = map (chartRow parseInt targetTimes sel) byRoute
              in Inr (js_sort (compare_rows localeCompare sel) routeStats')))"

section \<open>Passenger summary\<close>

text \<open>\<open>flights.filter\<close> on the category: only \<open>SF\<close> and \<open>135\<close> flights are relevant.\<close>

definition relevantFlights :: "Flight list \<Rightarrow> Flight list" where
  "relevantFlights flights =
     filter (\<lambda>flight. category flight = Some ''SF'' \<or> category flight = Some ''135'') flights"

text \<open>\<open>flight.passengerCount || 0\<close>.\<close>

fun field_or_zero :: "jsval \<Rightarrow> rat" where
  "field_or_zero (Number (Fin r)) = r"
| "field_or_zero _ = 0"

subsection \<open>The calendar functions of the date library\<close>



















subsection \<open>Monthly trend\<close>




subsection \<open>Passengers by route\<close>

text \<open>The running \<open>{count, flights}\<close> of one route: passengers and number of flights.\<close>

record PassengerAcc =
  pacc_count :: rat
  pacc_flights :: nat

text \<open>
  \<open>if (!byRoute[route]) byRoute[route] = {count: 0, flights: 0};
  byRoute[route].count += passengers; byRoute[route].flights += 1\<close>. For an inherited
  key no own entry is created and the two updates write to the inherited member.
\<close>

fun bump_own_passengers ::
  "string \<Rightarrow> rat \<Rightarrow> (string \<times> PassengerAcc) list \<Rightarrow> (string \<times> PassengerAcc) list" where
  "bump_own_passengers k c [] = [(k, \<lparr> pacc_count = fl (0 + c), pacc_flights = 0 + 1 \<rparr>)]"
| "bump_own_passengers k c ((k', s) # rest) =
     (if k = k'
      then (k', \<lparr> pacc_count = fl (pacc_count s + c), pacc_flights = pacc_flights s + 1 \<rparr>) # rest
      else (k', s) # bump_own_passengers k c rest)"

definition bump_passengers ::
  "string \<Rightarrow> rat \<Rightarrow> (string \<times> PassengerAcc) list \<Rightarrow> (string \<times> PassengerAcc) list" where
  "bump_passengers k c byRoute = (if inherited k then byRoute else bump_own_passengers k c byRoute)"

fun passengersByRoute_loop ::
  "Flight list \<Rightarrow> (string \<times> PassengerAcc) list \<Rightarrow> (string \<times> PassengerAcc) list" where
  "passengersByRoute_loop [] byRoute = byRoute"
| "passengersByRoute_loop (flight # rest) byRoute =
     (let route' = or_string (route flight) ''Local''
      in passengersByRoute_loop rest
           (bump_passengers route' (field_or_zero (passengerCount flight)) byRoute))"

text \<open>
  The callback of the final \<open>map\<close>. Its \<open>|| 0\<close> after the rounding changes nothing on
  a rational; every group holds at least one flight, so the division is defined.
\<close>

record PassengerRouteStat =
  prs_name :: string
  prs_passengers :: rat
  prs_flights :: nat
  prs_average :: rat

definition passengerRouteStat :: "string \<times> PassengerAcc \<Rightarrow> PassengerRouteStat" where
  "passengerRouteStat entry =
     (let route' = fst entry; data = snd entry
      in \<lparr> prs_name = route',
           prs_passengers = pacc_count data,
           prs_flights = pacc_flights data,
           prs_average = toFixed 1 (fl (pacc_count data / of_nat (pacc_flights data))) \<rparr>)"

definition passengersByRoute :: "Flight list \<Rightarrow> PassengerRouteStat list" where
  "passengersByRoute relevant =
     js_sort (\<lambda>a b. Fin (fl (prs_passengers b - prs_passengers a)))
       (map passengerRouteStat (passengersByRoute_loop relevant []))"

section \<open>Flight entry form\<close>

text \<open>
  Modelled from the spec: \<open>ensureNumber\<close> of the number utilities, whose source is not
  part of the files at hand. It returns the numeric value, or 0 if the value is absent,
  non-numeric or \<open>NaN\<close>.
\<close>

fun ensureNumber :: "jsval \<Rightarrow> rat" where
  "ensureNumber (Number (Fin r)) = r"
| "ensureNumber _ = 0"

text \<open>
  A tach value of the form. A number input registered with \<open>valueAsNumber\<close> reads the
  text \<open>-0\<close> as the negative zero. It counts as zero in every operation of this code,
  but the dependency comparison of an effect (\<open>Object.is\<close>) tells it apart from \<open>0\<close>, so
  here it is a value of its own.
\<close>

datatype tach_value = Plain jsval | MinusZero

fun plain :: "tach_value \<Rightarrow> jsval" where
  "plain (Plain v) = v"
| "plain MinusZero = Number (Fin 0)"

text \<open>
  The three meter values of the form. The other eleven values of the form neither
  reach the hobbs effect nor are written by it.
\<close>

record FlightFormValues =
  form_tachStart :: tach_value
  form_tachEnd :: tach_value
  form_hobbsTime :: jsval

text \<open>The \<open>defaultValues\<close> of \<open>useForm\<close>.\<close>

definition defaultValues :: FlightFormValues where
  "defaultValues =
     \<lparr> form_tachStart = Plain (Number (Fin 0)), form_tachEnd = Plain (Number (Fin 0)),
       form_hobbsTime = Number (Fin 0) \<rparr>"

text \<open>
  The body of the effect on \<open>[tachStart, tachEnd, setValue]\<close>; the literal \<open>1.2\<close> is
  the binary64 value nearest to 6/5.
\<close>

definition hobbs_effect :: "FlightFormValues \<Rightarrow> FlightFormValues" where
  "hobbs_effect v =
     (if form_tachStart v \<noteq> Plain Undefined \<and> form_tachEnd v \<noteq> Plain Undefined
      then (let start = ensureNumber (plain (form_tachStart v));
                end' = ensureNumber (plain (form_tachEnd v));
                tachDiff' = max 0 (fl (end' - start));
                hobbsTime' = fl (tachDiff' * fl (6 / 5))
            in v \<lparr> form_hobbsTime := Number (Fin hobbsTime') \<rparr>)
      else v)"

text \<open>
  The form between two renders: its values, and the dependency values that the effect
  saw when it last ran (\<open>None\<close> before the first render). After a render the effect
  runs again exactly when a dependency differs from what it saw.
\<close>

record FormState =
  form_values :: FlightFormValues
  seen_deps :: "(tach_value \<times> tach_value) option"

definition run_effects :: "FormState \<Rightarrow> FormState" where
  "run_effects st =
     (let deps = (form_tachStart (form_values st), form_tachEnd (form_values st))
      in if seen_deps st = Some deps then st
         else \<lparr> form_values = hobbs_effect (form_values st), seen_deps = Some deps \<rparr>)"

text \<open>
  What changes the values: typing into one of the two tach inputs (registered with
  \<open>valueAsNumber\<close>, so the value is a number, \<open>NaN\<close> for an empty input, or the negative
  zero), and the \<open>reset\<close> that loads an existing flight, with \<open>|| 0\<close> on each meter,
  which never gives the negative zero. The form has no input for the hobbs time.
\<close>

datatype form_event =
    InputTachStart number
  | InputTachEnd number
  | InputTachStartMinusZero
  | InputTachEndMinusZero
  | LoadFlight Flight

fun apply_event :: "form_event \<Rightarrow> FlightFormValues \<Rightarrow> FlightFormValues" where
  "apply_event (InputTachStart n) v = v \<lparr> form_tachStart := Plain (Number n) \<rparr>"
| "apply_event (InputTachEnd n) v = v \<lparr> form_tachEnd := Plain (Number n) \<rparr>"
| "apply_event InputTachStartMinusZero v = v \<lparr> form_tachStart := MinusZero \<rparr>"
| "apply_event InputTachEndMinusZero v = v \<lparr> form_tachEnd := MinusZero \<rparr>"
| "apply_event (LoadFlight flight) v =
     \<lparr> form_tachStart = Plain (Number (Fin (field_or_zero (tachStart flight)))),
       form_tachEnd = Plain (Number (Fin (field_or_zero (tachEnd flight)))),
       form_hobbsTime = Number (Fin (field_or_zero (hobbsTime flight))) \<rparr>"

definition mounted :: FormState where
  "mounted = run_effects \<lparr> form_values = defaultValues, seen_deps = None \<rparr>"

definition form_step :: "FormState \<Rightarrow> form_event \<Rightarrow> FormState" where
  "form_step st ev = run_effects (st \<lparr> form_values := apply_event ev (form_values st) \<rparr>)"

definition form_run :: "form_event list \<Rightarrow> FormState" where
  "form_run evs = foldl form_step mounted evs"

text \<open>The hobbs time that \<open>onSubmit\<close> passes on, and the product the effect writes.\<close>

definition submitted_hobbsTime :: "FormState \<Rightarrow> jsval" where
  "submitted_hobbsTime st = form_hobbsTime (form_values st)"

definition clamped_product :: "FlightFormValues \<Rightarrow> rat" where
  "clamped_product v =
     fl (max 0 (fl (ensureNumber (plain (form_tachEnd v)) - ensureNumber (plain (form_tachStart v))))
         * fl (6 / 5))"

text \<open>The two values that the effect depends on.\<close>

definition watched :: "FlightFormValues \<Rightarrow> tach_value \<times> tach_value" where
  "watched v = (form_tachStart v, form_tachEnd v)"

text \<open>
  A form at rest: the effect has seen the two tach values that the form holds, and
  both are defined.
\<close>

definition settled :: "FormState \<Rightarrow> bool" where
  "settled st =
     (seen_deps st = Some (form_tachStart (form_values st), form_tachEnd (form_values st))
      \<and> form_tachStart (form_values st) \<noteq> Plain Undefined
      \<and> form_tachEnd (form_values st) \<noteq> Plain Undefined)"

section \<open>Calendar months in the statements\<close>

text \<open>The first of the month that lies \<open>i\<close> months after January of year 0.\<close>

definition month_of_index :: "int \<Rightarrow> LocalDate" where
  "month_of_index i =
     \<lparr> getFullYear = i div 12, getMonth = nat (i mod 12), getDate = 1, msOfDay = 0 \<rparr>"

definition month_index :: "LocalDate \<Rightarrow> int" where
  "month_index d = getFullYear d * 12 + int (getMonth d)"


section \<open>Sample inputs\<close>

text \<open>A flight with every field absent, a row of the same kind, and the unfiltered selection.\<close>

definition blank_flight :: Flight where
  "blank_flight =
     \<lparr> flight_id = [], aircraftId = None, pilotId = None, date = None,
       tachStart = Undefined, tachEnd = Undefined, hobbsTime = Undefined,
       fuelAdded = Undefined, oilAdded = Undefined, passengerCount = Undefined,
       route = None, squawks = None, notes = None, createdAt = None, updatedAt = None,
       category = None, departureTime = None, pilotName = None \<rparr>"

definition blank_row :: FlightRow where
  "blank_row =
     \<lparr> row_id = [], aircraft_id_col = None, pilot_id = None, row_date = None,
       tach_start = Undefined, tach_end = Undefined, hobbs_time = Undefined,
       fuel_added = Undefined, oil_added = Undefined, passenger_count = Undefined,
       row_route = None, row_squawks = None, row_notes = None, created_at = None,
       updated_at = None, row_category = None, departure_time = None, pilot_name = None \<rparr>"

definition all_selected :: Selection where
  "all_selected =
     \<lparr> selectedMonth = ''all-months'', selectedYear = ''all-years'',
       selectedAircraft = ''all-aircraft'', selectedPilot = ''all-pilots'',
       sortField = ''route'', sortDirection = asc \<rparr>"

text \<open>A target for route \<open>ABC\<close> that leaves aircraft, pilot, month and year open.\<close>

definition abc_target :: "rat \<Rightarrow> RouteTargetTime" where
  "abc_target tt =
     \<lparr> target_id = ''t1'', target_route = ''ABC'', targetTime = Number (Fin tt),
       target_aircraftId = None, target_pilotId = None, target_month = Null,
       target_year = Null \<rparr>"

text \<open>A target for route \<open>ABC\<close> that is scoped to the aircraft \<open>N1\<close>.\<close>

definition scoped_target :: "rat \<Rightarrow> RouteTargetTime" where
  "scoped_target tt =
     \<lparr> target_id = ''t2'', target_route = ''ABC'', targetTime = Number (Fin tt),
       target_aircraftId = Some ''N1'', target_pilotId = None, target_month = Null,
       target_year = Null \<rparr>"

text \<open>A table row of route \<open>r\<close> with average time 2, measured against the target time \<open>tt\<close>.\<close>

definition sample_row :: "string \<Rightarrow> rat option \<Rightarrow> ChartRow" where
  "sample_row r tt =
     \<lparr> chart_route = r, chart_flightCount = 1, averageTime = Fin 2, chart_targetTime = tt,
       difference = map_option (\<lambda>t. sub_number (Fin 2) (Fin t)) tt,
       percentDiff =
         map_option (\<lambda>t. mul_number (sub_number (div_number (Fin 2) (Fin t)) (Fin 1)) (Fin 100)) tt \<rparr>"

text \<open>The three flights of the aircraft scenario.\<close>

definition three_flights :: "Flight list" where
  "three_flights =
     [blank_flight \<lparr> aircraftId := Some ''X'', hobbsTime := Number (Fin 2) \<rparr>,
      blank_flight \<lparr> aircraftId := Some ''X'', hobbsTime := Number (Fin 3) \<rparr>,
      blank_flight \<lparr> aircraftId := Some ''Y'', tachStart := Number (Fin 10),
                     tachEnd := Number (Fin 12) \<rparr>]"

text \<open>A logged flight with tach 1 to 4 and a hobbs time of 9.\<close>

definition logged_flight :: Flight where
  "logged_flight = blank_flight \<lparr> tachStart := Number (Fin 1), tachEnd := Number (Fin 4),
                                   hobbsTime := Number (Fin 9) \<rparr>"


definition october_flight :: Flight where
  "october_flight =
     blank_flight \<lparr> category := Some ''SF'', passengerCount := Number (Fin 3),
       date := Some \<lparr> getFullYear = 2026, getMonth = 9, getDate = 15, msOfDay = 0 \<rparr> \<rparr>"

section \<open>Verification\<close>

subsection \<open>Rounding\<close>

lemma round_even_nonneg: "0 \<le> y \<Longrightarrow> 0 \<le> round_even y"
  by (auto simp: round_even_def Let_def)

lemma pow2_pos: "0 < pow2 e"
  by (simp add: pow2_def)

lemma fl_nonneg:
  assumes "0 \<le> x"
  shows "0 \<le> fl x"
proof (cases "x = 0")
  case True
  then show ?thesis by (simp add: fl_def)
next
  case False
  define q where "q = pow2 (max (floor_log2 \<bar>x\<bar>) (- 1022) - 52)"
  have q: "0 < q" unfolding q_def by (rule pow2_pos)
  have "0 \<le> x / q" using assms q by simp
  then have "0 \<le> round_even (x / q)" by (rule round_even_nonneg)
  then have "0 \<le> rat_of_int (round_even (x / q)) * q"
    using q by (intro mult_nonneg_nonneg) simp_all
  then show ?thesis using False by (simp add: fl_def Let_def q_def)
qed

lemma fl_small_values:
  "fl 1 = 1" "fl 2 = 2" "fl 3 = 3" "fl 5 = 5" "fl (- 2) = - 2" "fl (5 / 2) = 5 / 2"
  by code_simp+

subsection \<open>Grouping keeps every flight once\<close>

lemma proto_inherited: "inherited ''__proto__''"
  by (simp add: inherited_def inherited_keys_def)

lemma sum_push_own:
  "sum_list (map (\<lambda>e. length (snd e)) (push_own k v m))
   = Suc (sum_list (map (\<lambda>e. length (snd e)) m))"
  by (induction m) auto

lemma flightsByAircraft_loop_sum:
  assumes "list_all (\<lambda>f. truthy_string (aircraftId f) \<longrightarrow> \<not> inherited (the (aircraftId f))) fs"
  shows "\<exists>groups. flightsByAircraft_loop fs m = Inr groups
           \<and> sum_list (map (\<lambda>e. length (snd e)) groups)
             = sum_list (map (\<lambda>e. length (snd e)) m)
               + length (filter (\<lambda>f. truthy_string (aircraftId f)) fs)"
  using assms
proof (induction fs arbitrary: m)
  case Nil
  then show ?case by simp
next
  case (Cons f fs)
  show ?case
  proof (cases "truthy_string (aircraftId f)")
    case False
    then show ?thesis using Cons by simp
  next
    case True
    with Cons.prems have "\<not> inherited (the (aircraftId f))" by simp
    then have step: "flightsByAircraft_loop (f # fs) m
        = flightsByAircraft_loop fs (push_own (the (aircraftId f)) f m)"
      using True by (simp add: push_group_def)
    from Cons.prems have "list_all (\<lambda>f. truthy_string (aircraftId f) \<longrightarrow> \<not> inherited (the (aircraftId f))) fs"
      by simp
    from Cons.IH [OF this, of "push_own (the (aircraftId f)) f m"]
    show ?thesis unfolding step using True by (auto simp: sum_push_own)
  qed
qed

lemma flightCount_aircraftStat: "flightCount (aircraftStat ac e) = length (snd e)"
  by (simp add: aircraftStat_def Let_def split: prod.splits)

lemma aircraft_partition:
  assumes "list_all (\<lambda>f. truthy_string (aircraftId f) \<longrightarrow> \<not> inherited (the (aircraftId f))) fs"
  shows "\<exists>rows. aircraftStats ac fs = Inr rows
           \<and> sum_list (map flightCount rows) = length (filter (\<lambda>f. truthy_string (aircraftId f)) fs)"
proof -
  from flightsByAircraft_loop_sum [OF assms, of "[]"]
  obtain groups where g: "flightsByAircraft_loop fs [] = Inr groups"
    and s: "sum_list (map (\<lambda>e. length (snd e)) groups)
            = length (filter (\<lambda>f. truthy_string (aircraftId f)) fs)"
    by auto
  have "aircraftStats ac fs = Inr (map (aircraftStat ac) groups)"
    by (simp add: aircraftStats_def flightsByAircraft_def g)
  moreover have "sum_list (map flightCount (map (aircraftStat ac) groups))
      = length (filter (\<lambda>f. truthy_string (aircraftId f)) fs)"
    using s by (simp add: comp_def flightCount_aircraftStat)
  ultimately show ?thesis by blast
qed

lemma sum_sort_insert:
  fixes f :: "'a \<Rightarrow> nat"
  shows "sum_list (map f (sort_insert cmp x ys)) = f x + sum_list (map f ys)"
  by (induction ys) auto

lemma sum_js_sort:
  fixes f :: "'a \<Rightarrow> nat"
  shows "sum_list (map f (js_sort cmp xs)) = sum_list (map f xs)"
  by (induction xs) (auto simp: sum_sort_insert)

lemma set_sort_insert: "set (sort_insert cmp x ys) = insert x (set ys)"
  by (induction ys) auto

lemma set_js_sort: "set (js_sort cmp xs) = set xs"
  by (induction xs) (auto simp: set_sort_insert)

lemma sum_bump_own_pilot:
  "sum_list (map (\<lambda>e. acc_count (snd e)) (bump_own_pilot k h m))
   = Suc (sum_list (map (\<lambda>e. acc_count (snd e)) m))"
  by (induction m) auto

lemma sum_byPilot_loop:
  "sum_list (map (\<lambda>e. acc_count (snd e)) (byPilot_loop fs m))
   = sum_list (map (\<lambda>e. acc_count (snd e)) m)
     + length (filter (\<lambda>f. \<not> inherited (or_string (pilotName f) ''Unknown'')) fs)"
  by (induction fs arbitrary: m) (auto simp: sum_bump_own_pilot bump_pilot_def Let_def)

lemma pilot_count:
  "sum_list (map pilot_flights (pilotStats fs))
   = length (filter (\<lambda>f. \<not> inherited (or_string (pilotName f) ''Unknown'')) fs)"
  by (simp add: pilotStats_def sum_js_sort comp_def pilotStat_def Let_def sum_byPilot_loop)

lemma filter_all: "list_all P xs \<Longrightarrow> filter P xs = xs"
  by (induction xs) auto

lemma pilot_partition:
  assumes "list_all (\<lambda>f. \<not> inherited (or_string (pilotName f) ''Unknown'')) fs"
  shows "sum_list (map pilot_flights (pilotStats fs)) = length fs"
  by (simp add: pilot_count filter_all [OF assms])

lemma bump_own_route_counts:
  assumes "list_all (\<lambda>e. racc_count (snd e) \<noteq> None) m"
  shows "list_all (\<lambda>e. racc_count (snd e) \<noteq> None) (bump_own_route k h t m)
     \<and> sum_list (map (\<lambda>e. the (racc_count (snd e))) (bump_own_route k h t m))
       = Suc (sum_list (map (\<lambda>e. the (racc_count (snd e))) m))"
  using assms by (induction m) auto

lemma byRoute_loop_counts:
  assumes "list_all (\<lambda>f. \<not> inherited (or_string (route f) ''Local'')) fs"
    and "list_all (\<lambda>e. racc_count (snd e) \<noteq> None) m"
  shows "list_all (\<lambda>e. racc_count (snd e) \<noteq> None) (byRoute_loop fs m)
     \<and> sum_list (map (\<lambda>e. the (racc_count (snd e))) (byRoute_loop fs m))
       = sum_list (map (\<lambda>e. the (racc_count (snd e))) m) + length fs"
  using assms
proof (induction fs arbitrary: m)
  case Nil
  then show ?case by simp
next
  case (Cons f fs)
  let ?k = "or_string (route f) ''Local''"
  from Cons.prems have k: "\<not> inherited ?k" and rest: "list_all (\<lambda>f. \<not> inherited (or_string (route f) ''Local'')) fs"
    by simp_all
  from k proto_inherited have "?k \<noteq> ''__proto__''" by metis
  then have b: "bump_route ?k (hours f) (tachDiff f) m = bump_own_route ?k (hours f) (tachDiff f) m"
    using k by (simp add: bump_route_def)
  note own = bump_own_route_counts [OF Cons.prems(2), of ?k "hours f" "tachDiff f"]
  from Cons.IH [OF rest own [THEN conjunct1]] own [THEN conjunct2]
  show ?case by (simp add: Let_def b)
qed

lemma route_partition:
  assumes "list_all (\<lambda>f. \<not> inherited (or_string (route f) ''Local'')) fs"
  shows "list_all (\<lambda>r. route_flights r \<noteq> None) (routeStats fs)
     \<and> sum_list (map (\<lambda>r. the (route_flights r)) (routeStats fs)) = length fs"
proof -
  from byRoute_loop_counts [OF assms, of "[]"]
  have a: "list_all (\<lambda>e. racc_count (snd e) \<noteq> None) (byRoute_loop fs [])"
    and s: "sum_list (map (\<lambda>e. the (racc_count (snd e))) (byRoute_loop fs [])) = length fs"
    by simp_all
  have "list_all (\<lambda>r. route_flights r \<noteq> None) (routeStats fs)"
    using a by (auto simp: routeStats_def list_all_iff set_js_sort routeStat_def Let_def)
  moreover have "sum_list (map (\<lambda>r. the (route_flights r)) (routeStats fs)) = length fs"
    using s by (simp add: routeStats_def sum_js_sort comp_def routeStat_def Let_def)
  ultimately show ?thesis by blast
qed

lemma flightsByRoute_sum:
  assumes "list_all (\<lambda>f. \<not> inherited (or_string (route f) ''Unknown'')) fs"
  shows "\<exists>groups.
           foldl (\<lambda>acc flight. case acc of Inl e \<Rightarrow> Inl e
                    | Inr groups \<Rightarrow> push_group (or_string (route flight) ''Unknown'') flight groups)
             (Inr m) fs = Inr groups
           \<and> sum_list (map (\<lambda>e. length (snd e)) groups)
             = sum_list (map (\<lambda>e. length (snd e)) m) + length fs"
  using assms
proof (induction fs arbitrary: m)
  case Nil
  then show ?case by simp
next
  case (Cons f fs)
  from Cons.prems have k: "\<not> inherited (or_string (route f) ''Unknown'')"
    and rest: "list_all (\<lambda>f. \<not> inherited (or_string (route f) ''Unknown'')) fs"
    by simp_all
  from Cons.IH [OF rest, of "push_own (or_string (route f) ''Unknown'') f m"] k
  show ?case by (auto simp: push_group_def sum_push_own)
qed

lemma chart_partition:
  assumes "list_all (\<lambda>f. \<not> inherited (or_string (route f) ''Unknown''))
             (filter (flight_selected parseInt sel) flights)"
  shows "\<exists>rows. chartData parseInt localeCompare flights targetTimes sel = Inr rows
           \<and> sum_list (map chart_flightCount rows)
             = length (filter (flight_selected parseInt sel) flights)"
proof -
  from flightsByRoute_sum [OF assms, of "[]"]
  obtain groups where g: "flightsByRoute (filter (flight_selected parseInt sel) flights) = Inr groups"
    and s: "sum_list (map (\<lambda>e. length (snd e)) groups)
            = length (filter (flight_selected parseInt sel) flights)"
    unfolding flightsByRoute_def by auto
  have "chartData parseInt localeCompare flights targetTimes sel
        = Inr (js_sort (compare_rows localeCompare sel) (map (chartRow parseInt targetTimes sel) groups))"
    by (simp add: chartData_def Let_def g)
  moreover have "sum_list (map chart_flightCount
        (js_sort (compare_rows localeCompare sel) (map (chartRow parseInt targetTimes sel) groups)))
      = length (filter (flight_selected parseInt sel) flights)"
    using s by (simp add: sum_js_sort comp_def chartRow_def Let_def)
  ultimately show ?thesis by blast
qed

lemma sum_bump_own_passengers:
  "sum_list (map (\<lambda>e. pacc_flights (snd e)) (bump_own_passengers k c m))
   = Suc (sum_list (map (\<lambda>e. pacc_flights (snd e)) m))"
  by (induction m) auto

lemma sum_passengersByRoute_loop:
  "sum_list (map (\<lambda>e. pacc_flights (snd e)) (passengersByRoute_loop fs m))
   = sum_list (map (\<lambda>e. pacc_flights (snd e)) m)
     + length (filter (\<lambda>f. \<not> inherited (or_string (route f) ''Local'')) fs)"
  by (induction fs arbitrary: m) (auto simp: sum_bump_own_passengers bump_passengers_def Let_def)

lemma passenger_route_partition:
  assumes "list_all (\<lambda>f. \<not> inherited (or_string (route f) ''Local'')) relevant"
  shows "sum_list (map prs_flights (passengersByRoute relevant)) = length relevant"
  by (simp add: passengersByRoute_def sum_js_sort comp_def passengerRouteStat_def Let_def
      sum_passengersByRoute_loop filter_all [OF assms])

lemma scenario_aircraft:
  "aircraftStats []
     [blank_flight \<lparr> aircraftId := Some ''X'', hobbsTime := Number (Fin 2) \<rparr>,
      blank_flight \<lparr> aircraftId := Some ''X'', hobbsTime := Number (Fin 3) \<rparr>,
      blank_flight \<lparr> aircraftId := Some ''Y'', tachStart := Number (Fin 10),
                     tachEnd := Number (Fin 12) \<rparr>]
   = Inr [\<lparr> stat_id = ''X'', stat_tailNumber = ''Unknown'', stat_make = ''Unknown'',
        stat_model = ''Unknown'', flightCount = 2, totalHours = 5, totalTach = 0,
        averageFlightTime = 5 / 2, averageTachTime = 0 \<rparr>,
      \<lparr> stat_id = ''Y'', stat_tailNumber = ''Unknown'', stat_make = ''Unknown'',
        stat_model = ''Unknown'', flightCount = 1, totalHours = 2, totalTach = 2,
        averageFlightTime = 2, averageTachTime = 2 \<rparr>]"
  by code_simp

text \<open>
  Claim C6 as stated (for every flight collection the counts of the groups add up to
  the number of grouped flights) fails on a key that names a member of
  \<open>Object.prototype\<close>: of two flights, one by the pilot \<open>constructor\<close>, the pilot summary
  counts one; an aircraft id \<open>constructor\<close> makes the aircraft grouping throw; a route
  \<open>constructor\<close> gives the route summary a row whose count is \<open>NaN\<close>.
\<close>

theorem inherited_key_breaks_partition:
  "sum_list (map pilot_flights
      (pilotStats [blank_flight \<lparr> pilotName := Some ''constructor'' \<rparr>,
                   blank_flight \<lparr> pilotName := Some ''Ann'' \<rparr>])) = 1
   \<and> length [blank_flight \<lparr> pilotName := Some ''constructor'' \<rparr>,
              blank_flight \<lparr> pilotName := Some ''Ann'' \<rparr>] = 2
   \<and> aircraftStats [] [blank_flight \<lparr> aircraftId := Some ''constructor'' \<rparr>] = Inl TypeError
   \<and> map route_flights (routeStats [blank_flight \<lparr> route := Some ''constructor'' \<rparr>]) = [None]"
  by code_simp

text \<open>
  Claim C6, amended: for every flight collection whose group keys do not name a member
  of \<open>Object.prototype\<close>, the flight counts of the groups add up to the number of
  flights that were grouped: every flight with an aircraft id for the aircraft summary,
  every flight for the pilot and the route summary; likewise every selected flight for
  the routes of the analytics and every relevant flight for the routes of the passenger
  summary. Two flights of aircraft X with hobbs times 2 and 3 and one flight of
  aircraft Y from tach 10 to tach 12 give X two flights, 5 hours in total and 2.5 on
  average, and Y one flight of 2 hours.
\<close>

theorem grouping_is_partition_of_own_keys:
  "(list_all (\<lambda>f. truthy_string (aircraftId f) \<longrightarrow> \<not> inherited (the (aircraftId f))) fs \<longrightarrow>
      (\<exists>rows. aircraftStats ac fs = Inr rows
         \<and> sum_list (map flightCount rows)
           = length (filter (\<lambda>f. truthy_string (aircraftId f)) fs)))
   \<and> (list_all (\<lambda>f. \<not> inherited (or_string (pilotName f) ''Unknown'')) fs \<longrightarrow>
      sum_list (map pilot_flights (pilotStats fs)) = length fs)
   \<and> (list_all (\<lambda>f. \<not> inherited (or_string (route f) ''Local'')) fs \<longrightarrow>
      list_all (\<lambda>r. route_flights r \<noteq> None) (routeStats fs)
      \<and> sum_list (map (\<lambda>r. the (route_flights r)) (routeStats fs)) = length fs)
   \<and> (list_all (\<lambda>f. \<not> inherited (or_string (route f) ''Unknown''))
         (filter (flight_selected parseInt sel) fs) \<longrightarrow>
      (\<exists>rows. chartData parseInt localeCompare fs targetTimes sel = Inr rows
         \<and> sum_list (map chart_flightCount rows)
           = length (filter (flight_selected parseInt sel) fs)))
   \<and> (list_all (\<lambda>f. \<not> inherited (or_string (route f) ''Local'')) (relevantFlights fs) \<longrightarrow>
      sum_list (map prs_flights (passengersByRoute (relevantFlights fs)))
      = length (relevantFlights fs))
   \<and> aircraftStats []
       [blank_flight \<lparr> aircraftId := Some ''X'', hobbsTime := Number (Fin 2) \<rparr>,
        blank_flight \<lparr> aircraftId := Some ''X'', hobbsTime := Number (Fin 3) \<rparr>,
        blank_flight \<lparr> aircraftId := Some ''Y'', tachStart := Number (Fin 10),
                       tachEnd := Number (Fin 12) \<rparr>]
     = Inr [\<lparr> stat_id = ''X'', stat_tailNumber = ''Unknown'', stat_make = ''Unknown'',
          stat_model = ''Unknown'', flightCount = 2, totalHours = 5, totalTach = 0,
          averageFlightTime = 5 / 2, averageTachTime = 0 \<rparr>,
        \<lparr> stat_id = ''Y'', stat_tailNumber = ''Unknown'', stat_make = ''Unknown'',
          stat_model = ''Unknown'', flightCount = 1, totalHours = 2, totalTach = 2,
          averageFlightTime = 2, averageTachTime = 2 \<rparr>]"
proof (intro conjI impI)
  show "aircraftStats []
       [blank_flight \<lparr> aircraftId := Some ''X'', hobbsTime := Number (Fin 2) \<rparr>,
        blank_flight \<lparr> aircraftId := Some ''X'', hobbsTime := Number (Fin 3) \<rparr>,
        blank_flight \<lparr> aircraftId := Some ''Y'', tachStart := Number (Fin 10),
                       tachEnd := Number (Fin 12) \<rparr>]
     = Inr [\<lparr> stat_id = ''X'', stat_tailNumber = ''Unknown'', stat_make = ''Unknown'',
          stat_model = ''Unknown'', flightCount = 2, totalHours = 5, totalTach = 0,
          averageFlightTime = 5 / 2, averageTachTime = 0 \<rparr>,
        \<lparr> stat_id = ''Y'', stat_tailNumber = ''Unknown'', stat_make = ''Unknown'',
          stat_model = ''Unknown'', flightCount = 1, totalHours = 2, totalTach = 2,
          averageFlightTime = 2, averageTachTime = 2 \<rparr>]"
    by (rule scenario_aircraft)
qed (erule aircraft_partition pilot_partition chart_partition passenger_route_partition
       route_partition [THEN conjunct1] route_partition [THEN conjunct2])+

theorem grouping_is_partition_of_own_keys_witness:
  "list_all (\<lambda>f. truthy_string (aircraftId f) \<longrightarrow> \<not> inherited (the (aircraftId f))) three_flights
   \<and> list_all (\<lambda>f. \<not> inherited (or_string (pilotName f) ''Unknown'')) three_flights
   \<and> list_all (\<lambda>f. \<not> inherited (or_string (route f) ''Local'')) three_flights
   \<and> list_all (\<lambda>f. \<not> inherited (or_string (route f) ''Unknown''))
        (filter (flight_selected (\<lambda>s. NaN) all_selected) three_flights)
   \<and> list_all (\<lambda>f. \<not> inherited (or_string (route f) ''Local''))
        (relevantFlights [october_flight, blank_flight])
   \<and> (\<exists>rows. aircraftStats [] three_flights = Inr rows \<and> sum_list (map flightCount rows) = 3)
   \<and> sum_list (map pilot_flights (pilotStats three_flights)) = 3
   \<and> sum_list (map (\<lambda>r. the (route_flights r)) (routeStats three_flights)) = 3
   \<and> (\<exists>rows. chartData (\<lambda>s. NaN) (\<lambda>a b. Fin 0) three_flights [] all_selected = Inr rows
         \<and> sum_list (map chart_flightCount rows) = 3)
   \<and> sum_list (map prs_flights (passengersByRoute (relevantFlights [october_flight, blank_flight])))
      = 1"
proof -
  have h1: "list_all (\<lambda>f. truthy_string (aircraftId f) \<longrightarrow> \<not> inherited (the (aircraftId f))) three_flights"
    by (simp add: three_flights_def blank_flight_def inherited_def inherited_keys_def)
  have h2: "list_all (\<lambda>f. \<not> inherited (or_string (pilotName f) ''Unknown'')) three_flights"
    by (simp add: three_flights_def blank_flight_def inherited_def inherited_keys_def or_string_def)
  have h3: "list_all (\<lambda>f. \<not> inherited (or_string (route f) ''Local'')) three_flights"
    by (simp add: three_flights_def blank_flight_def inherited_def inherited_keys_def or_string_def)
  have sel: "filter (flight_selected (\<lambda>s. NaN) all_selected) three_flights = three_flights"
    by (simp add: three_flights_def flight_selected_def all_selected_def)
  have h4: "list_all (\<lambda>f. \<not> inherited (or_string (route f) ''Unknown''))
        (filter (flight_selected (\<lambda>s. NaN) all_selected) three_flights)"
    unfolding sel
    by (simp add: three_flights_def blank_flight_def inherited_def inherited_keys_def or_string_def)
  have rel: "relevantFlights [october_flight, blank_flight] = [october_flight]"
    by (simp add: relevantFlights_def october_flight_def blank_flight_def)
  have h5: "list_all (\<lambda>f. \<not> inherited (or_string (route f) ''Local''))
        (relevantFlights [october_flight, blank_flight])"
    unfolding rel
    by (simp add: october_flight_def blank_flight_def inherited_def inherited_keys_def or_string_def)
  have ids: "length (filter (\<lambda>f. truthy_string (aircraftId f)) three_flights) = 3"
    by (simp add: three_flights_def)
  have len: "length three_flights = 3"
    by (simp add: three_flights_def)
  have len_rel: "length (relevantFlights [october_flight, blank_flight]) = 1"
    unfolding rel by simp
  note t = grouping_is_partition_of_own_keys
    [of three_flights "[]" "\<lambda>s. NaN" all_selected "\<lambda>a b. Fin 0" "[]"]
  note p = grouping_is_partition_of_own_keys
    [of "[october_flight, blank_flight]" "[]" "\<lambda>s. NaN" all_selected "\<lambda>a b. Fin 0" "[]"]
  have passengers: "sum_list (map prs_flights
      (passengersByRoute (relevantFlights [october_flight, blank_flight]))) = 1"
    using p h5 unfolding len_rel by blast
  show ?thesis
    using t h1 h2 h3 h4 h5 passengers unfolding sel ids len by blast
qed

subsection \<open>Duration of a flight\<close>

lemma tachDiff_nonneg: "0 \<le> tachDiff f"
  by (simp add: tachDiff_def Let_def fl_nonneg)

lemma hours_nonneg: "0 \<le> or_zero (parseFloat (hobbsTime f)) \<Longrightarrow> 0 \<le> hours f"
  by (simp add: hours_def Let_def tachDiff_nonneg)

lemma hours_tach_regression:
  "or_zero (parseFloat (hobbsTime f)) = 0
   \<Longrightarrow> or_zero (parseFloat (tachEnd f)) < or_zero (parseFloat (tachStart f))
   \<Longrightarrow> hours f = 0"
  by (simp add: hours_def tachDiff_def Let_def)

text \<open>
  Claim C1 (the resolved duration is never negative, in every view that computes one).
  The overview clamps a tach regression to zero (the lemmas above), the fuel analysis
  does not: for a flight with hobbs time 0, tach start 12 and tach end 10 its
  \<open>hoursFlown\<close> is \<open>-2\<close>, and a fleet total of 3 hours drops to 1, while the overview
  resolves the same flight to 0.
\<close>

theorem fuel_analysis_negative_hours:
  "hoursFlown (blank_flight \<lparr> hobbsTime := Number (Fin 0), tachStart := Number (Fin 12),
                              tachEnd := Number (Fin 10) \<rparr>) = Fin (- 2)
   \<and> overall_totalHours (overallStats
        [blank_flight \<lparr> hobbsTime := Number (Fin 3) \<rparr>,
         blank_flight \<lparr> hobbsTime := Number (Fin 0), tachStart := Number (Fin 12),
                        tachEnd := Number (Fin 10) \<rparr>]) = Fin 1
   \<and> hours (blank_flight \<lparr> hobbsTime := Number (Fin 0), tachStart := Number (Fin 12),
                           tachEnd := Number (Fin 10) \<rparr>) = 0"
  by code_simp

text \<open>
  Claim C2: when the hobbs time of a flight is a number other than zero, the resolved
  duration is that number whatever the tach values are: in the three summaries of the
  overview (\<open>hours\<close>), in the fuel analysis (\<open>hoursFlown\<close>) and in the route analytics,
  which add the field itself.
\<close>

theorem hobbs_time_wins:
  assumes "hobbsTime f = Number (Fin h)" and "h \<noteq> 0"
  shows "hours f = h \<and> hoursFlown f = Fin h \<and> to_number (hobbsTime f) = Fin h"
  using assms by (simp add: hours_def hoursFlown_def)

theorem hobbs_time_wins_witness:
  "hobbsTime (blank_flight \<lparr> hobbsTime := Number (Fin 2), tachStart := Number (Fin 10),
                             tachEnd := Number (Fin 7) \<rparr>) = Number (Fin 2)
   \<and> (2::rat) \<noteq> 0
   \<and> hours (blank_flight \<lparr> hobbsTime := Number (Fin 2), tachStart := Number (Fin 10),
                           tachEnd := Number (Fin 7) \<rparr>) = 2
   \<and> hoursFlown (blank_flight \<lparr> hobbsTime := Number (Fin 2), tachStart := Number (Fin 10),
                                tachEnd := Number (Fin 7) \<rparr>) = Fin 2"
  using hobbs_time_wins [of "blank_flight \<lparr> hobbsTime := Number (Fin 2),
      tachStart := Number (Fin 10), tachEnd := Number (Fin 7) \<rparr>" 2]
  by (simp add: blank_flight_def)

subsection \<open>Target reconciliation\<close>

lemma find_only: "filter P xs = [t] \<Longrightarrow> find P xs = Some t"
  by (induction xs) (auto split: if_splits simp: filter_empty_conv)

lemma falsy_unset: "unset v \<Longrightarrow> \<not> truthy v"
  by (cases v) simp_all

lemma spec_matches_imp:
  "spec_target_matches parseInt sel r t \<Longrightarrow> target_matches parseInt sel r t"
  by (auto simp: spec_target_matches_def target_matches_def falsy_unset)

text \<open>
  Claim C3 as stated fails when matching is taken by the rule of the specification (a
  scoped target matches only a selection equal to its scope). The predicate of the code
  also lets a scoped target pass while the filter of that dimension is not set. With no
  filter set and one target of 1.5 hours scoped to an aircraft, no target matches the
  route by the rule, yet the row carries the target time 1.5 and the difference 0.5.
  And when the only target that matches by the rule has target time 0 and the scoped
  target precedes it, the row carries 1.5 again and is not treated as unmatched.
\<close>

theorem scoped_target_matches_without_filter:
  "filter (spec_target_matches (\<lambda>s. NaN) all_selected ''ABC'') [scoped_target (3 / 2)] = []
   \<and> chart_targetTime (chartRow (\<lambda>s. NaN) [scoped_target (3 / 2)] all_selected
        (''ABC'', [blank_flight \<lparr> route := Some ''ABC'', hobbsTime := Number (Fin 2) \<rparr>]))
     = Some (3 / 2)
   \<and> difference (chartRow (\<lambda>s. NaN) [scoped_target (3 / 2)] all_selected
        (''ABC'', [blank_flight \<lparr> route := Some ''ABC'', hobbsTime := Number (Fin 2) \<rparr>]))
     = Some (Fin (1 / 2))
   \<and> filter (spec_target_matches (\<lambda>s. NaN) all_selected ''ABC'')
        [scoped_target (3 / 2), abc_target 0] = [abc_target 0]
   \<and> chart_targetTime (chartRow (\<lambda>s. NaN) [scoped_target (3 / 2), abc_target 0] all_selected
        (''ABC'', [blank_flight \<lparr> route := Some ''ABC'', hobbsTime := Number (Fin 2) \<rparr>]))
     = Some (3 / 2)"
  by code_simp

text \<open>
  Claim C3, amended: matching is what the predicate of the code accepts (the route is
  the same and, for each of aircraft, pilot, month and year, the filter is not set, or
  the target's value equals the selection, or the target's value is unset). A route for
  which \<open>find\<close> meets no such target gets \<open>null\<close> as target time, difference and percent
  difference; so does a route whose only such target has target time 0, and no division
  by that zero takes place. Every target that matches by the rule of the specification
  matches in this sense.
\<close>

theorem no_target_gives_null:
  "(find (target_matches parseInt sel (fst e)) ts = None \<longrightarrow>
      chart_targetTime (chartRow parseInt ts sel e) = None
      \<and> difference (chartRow parseInt ts sel e) = None
      \<and> percentDiff (chartRow parseInt ts sel e) = None)
   \<and> (filter (target_matches parseInt sel (fst e)) ts = [t] \<and> targetTime t = Number (Fin 0) \<longrightarrow>
      chart_targetTime (chartRow parseInt ts sel e) = None
      \<and> difference (chartRow parseInt ts sel e) = None
      \<and> percentDiff (chartRow parseInt ts sel e) = None)
   \<and> (spec_target_matches parseInt sel (fst e) t \<longrightarrow> target_matches parseInt sel (fst e) t)"
  by (auto simp: chartRow_def Let_def spec_matches_imp dest: find_only)

theorem no_target_gives_null_witness:
  "find (target_matches (\<lambda>s. NaN) all_selected (fst (''ABC'', [blank_flight]))) [] = None
   \<and> chart_targetTime (chartRow (\<lambda>s. NaN) [] all_selected (''ABC'', [blank_flight])) = None
   \<and> filter (target_matches (\<lambda>s. NaN) all_selected (fst (''ABC'', [blank_flight])))
        [abc_target 0] = [abc_target 0]
   \<and> targetTime (abc_target 0) = Number (Fin 0)
   \<and> chart_targetTime (chartRow (\<lambda>s. NaN) [abc_target 0] all_selected (''ABC'', [blank_flight])) = None
   \<and> difference (chartRow (\<lambda>s. NaN) [abc_target 0] all_selected (''ABC'', [blank_flight])) = None
   \<and> percentDiff (chartRow (\<lambda>s. NaN) [abc_target 0] all_selected (''ABC'', [blank_flight])) = None
   \<and> spec_target_matches (\<lambda>s. NaN) all_selected (fst (''ABC'', [blank_flight])) (abc_target 0)
   \<and> target_matches (\<lambda>s. NaN) all_selected (fst (''ABC'', [blank_flight])) (abc_target 0)"
  using no_target_gives_null [of "\<lambda>s. NaN" all_selected "(''ABC'', [blank_flight])" "[]"]
    no_target_gives_null [of "\<lambda>s. NaN" all_selected "(''ABC'', [blank_flight])"
      "[abc_target 0]" "abc_target 0"]
  by (simp add: target_matches_def spec_target_matches_def abc_target_def all_selected_def)

lemma scenario_values:
  "fl (9 / 5) = 8106479329266893 / 4503599627370496"
  "fl (3 / 10) = 5404319552844595 / 18014398509481984"
  by code_simp+

text \<open>
  Claim C4 as stated fails twice. In binary64 the average 1.8 against the target 1.5
  gives the difference 0.30000000000000004 (the value \<open>1351079888211149 / 2^52\<close>, one
  step above the binary64 value of 0.3) and 19.999999999999996 percent (the value
  \<open>5629499534213119 / 2^48\<close>), not 0.3 and 20. And the target that the row is measured
  against is the first one that passes the matcher of the code: with no filter set, a
  target scoped to an aircraft comes before the unscoped target of 1.5 hours, which
  alone matches by the rule of the specification, and the row is measured against it.
\<close>

theorem variance_is_rounded_and_first_match:
  "difference (chartRow (\<lambda>s. NaN) [abc_target (3 / 2)] all_selected
      (''ABC'', [blank_flight \<lparr> route := Some ''ABC'', hobbsTime := Number (Fin (fl (9 / 5))) \<rparr>]))
     = Some (Fin (1351079888211149 / 4503599627370496))
   \<and> Fin (1351079888211149 / 4503599627370496) \<noteq> Fin (fl (3 / 10))
   \<and> percentDiff (chartRow (\<lambda>s. NaN) [abc_target (3 / 2)] all_selected
      (''ABC'', [blank_flight \<lparr> route := Some ''ABC'', hobbsTime := Number (Fin (fl (9 / 5))) \<rparr>]))
     = Some (Fin (5629499534213119 / 281474976710656))
   \<and> Fin (5629499534213119 / 281474976710656) \<noteq> Fin 20
   \<and> filter (spec_target_matches (\<lambda>s. NaN) all_selected ''ABC'')
        [scoped_target 2, abc_target (3 / 2)] = [abc_target (3 / 2)]
   \<and> chart_targetTime (chartRow (\<lambda>s. NaN) [scoped_target 2, abc_target (3 / 2)] all_selected
      (''ABC'', [blank_flight \<lparr> route := Some ''ABC'', hobbsTime := Number (Fin (fl (9 / 5))) \<rparr>]))
     = Some 2"
  by code_simp

text \<open>
  Claim C4, amended: when the first target that passes the matcher of the code has a
  positive target time \<open>tt\<close>, the row carries \<open>difference = averageTime - tt\<close> and
  \<open>percentDiff = (averageTime / tt - 1) * 100\<close>, each operation rounded to binary64. One
  flight of 1.8 hours on route ABC against a target of 1.5 hours gives the difference
  0.30000000000000004 and 19.999999999999996 percent.
\<close>

theorem matched_target_variance:
  "(find (target_matches parseInt sel (fst e)) ts = Some t \<and> targetTime t = Number (Fin tt) \<and> 0 < tt \<longrightarrow>
      chart_targetTime (chartRow parseInt ts sel e) = Some tt
      \<and> difference (chartRow parseInt ts sel e)
          = Some (sub_number (averageTime (chartRow parseInt ts sel e)) (Fin tt))
      \<and> percentDiff (chartRow parseInt ts sel e)
          = Some (mul_number (sub_number (div_number (averageTime (chartRow parseInt ts sel e)) (Fin tt))
                                (Fin 1)) (Fin 100)))
   \<and> chartData parseInt localeCompare
        [blank_flight \<lparr> route := Some ''ABC'', hobbsTime := Number (Fin (fl (9 / 5))) \<rparr>]
        [abc_target (3 / 2)] all_selected
      = Inr [\<lparr> chart_route = ''ABC'', chart_flightCount = 1, averageTime = Fin (fl (9 / 5)),
           chart_targetTime = Some (3 / 2),
           difference = Some (Fin (1351079888211149 / 4503599627370496)),
           percentDiff = Some (Fin (5629499534213119 / 281474976710656)) \<rparr>]"
proof (intro conjI impI)
  have row: "chartRow parseInt [abc_target (3 / 2)] all_selected
        (''ABC'', [blank_flight \<lparr> route := Some ''ABC'', hobbsTime := Number (Fin (fl (9 / 5))) \<rparr>])
      = \<lparr> chart_route = ''ABC'', chart_flightCount = 1, averageTime = Fin (fl (9 / 5)),
           chart_targetTime = Some (3 / 2),
           difference = Some (Fin (1351079888211149 / 4503599627370496)),
           percentDiff = Some (Fin (5629499534213119 / 281474976710656)) \<rparr>"
    by code_simp
  have groups: "flightsByRoute
        [blank_flight \<lparr> route := Some ''ABC'', hobbsTime := Number (Fin (fl (9 / 5))) \<rparr>]
      = Inr [(''ABC'', [blank_flight \<lparr> route := Some ''ABC'', hobbsTime := Number (Fin (fl (9 / 5))) \<rparr>])]"
    by code_simp
  show "chartData parseInt localeCompare
        [blank_flight \<lparr> route := Some ''ABC'', hobbsTime := Number (Fin (fl (9 / 5))) \<rparr>]
        [abc_target (3 / 2)] all_selected
      = Inr [\<lparr> chart_route = ''ABC'', chart_flightCount = 1, averageTime = Fin (fl (9 / 5)),
           chart_targetTime = Some (3 / 2),
           difference = Some (Fin (1351079888211149 / 4503599627370496)),
           percentDiff = Some (Fin (5629499534213119 / 281474976710656)) \<rparr>]"
    by (simp add: chartData_def flight_selected_def all_selected_def groups
        row [unfolded all_selected_def])
qed (simp_all add: chartRow_def Let_def)

theorem matched_target_variance_witness:
  "find (target_matches (\<lambda>s. NaN) all_selected
           (fst (''ABC'', [blank_flight \<lparr> hobbsTime := Number (Fin (fl (9 / 5))) \<rparr>])))
        [abc_target (3 / 2)] = Some (abc_target (3 / 2))
   \<and> targetTime (abc_target (3 / 2)) = Number (Fin (3 / 2)) \<and> (0::rat) < 3 / 2
   \<and> difference (chartRow (\<lambda>s. NaN) [abc_target (3 / 2)] all_selected
        (''ABC'', [blank_flight \<lparr> hobbsTime := Number (Fin (fl (9 / 5))) \<rparr>]))
      = Some (sub_number (Fin (fl (9 / 5))) (Fin (3 / 2)))
   \<and> sub_number (Fin (fl (9 / 5))) (Fin (3 / 2)) = Fin (1351079888211149 / 4503599627370496)"
proof -
  have f: "find (target_matches (\<lambda>s. NaN) all_selected
           (fst (''ABC'', [blank_flight \<lparr> hobbsTime := Number (Fin (fl (9 / 5))) \<rparr>])))
        [abc_target (3 / 2)] = Some (abc_target (3 / 2))"
    by (simp add: target_matches_def abc_target_def all_selected_def)
  have tt: "targetTime (abc_target (3 / 2)) = Number (Fin (3 / 2))"
    by (simp add: abc_target_def)
  have avg: "averageTime (chartRow (\<lambda>s. NaN) [abc_target (3 / 2)] all_selected
        (''ABC'', [blank_flight \<lparr> hobbsTime := Number (Fin (fl (9 / 5))) \<rparr>])) = Fin (fl (9 / 5))"
    by code_simp
  have v: "sub_number (Fin (fl (9 / 5))) (Fin (3 / 2)) = Fin (1351079888211149 / 4503599627370496)"
    by code_simp
  show ?thesis
    using matched_target_variance [of "\<lambda>s. NaN" all_selected
      "(''ABC'', [blank_flight \<lparr> hobbsTime := Number (Fin (fl (9 / 5))) \<rparr>])"
      "[abc_target (3 / 2)]" "abc_target (3 / 2)" "3 / 2" "\<lambda>a b. Fin 0"] f tt v
    unfolding avg by simp
qed

subsection \<open>Route labels\<close>

text \<open>
  Claim C5 (a flight without a route is grouped under \<open>Local\<close> in every route view).
  The route analytics group such a flight under \<open>Unknown\<close>; the route summary of the
  overview and the passenger summary group it under \<open>Local\<close>.
\<close>

theorem absent_route_label_differs:
  "map_sum id (map fst) (flightsByRoute [blank_flight]) = Inr [''Unknown'']
   \<and> map_sum id (map chart_route) (chartData parseInt localeCompare [blank_flight] [] all_selected)
     = Inr [''Unknown'']
   \<and> map route_name (routeStats [blank_flight]) = [''Local'']
   \<and> map prs_name (passengersByRoute [blank_flight]) = [''Local'']"
  by code_simp

subsection \<open>Realtime notifications\<close>

text \<open>
  Claim C8: an insert of a row whose identity is already in the collection returns the
  collection as it is; a delete of an identity that is not in the collection returns
  it as it is; after insert, update and delete of one identity, in this order, no
  flight of that identity is left.
\<close>

theorem realtime_adapter:
  "(list_ex (\<lambda>f. flight_id f = row_id r) fs \<longrightarrow> onInsert r fs = fs)
   \<and> (\<not> list_ex (\<lambda>f. flight_id f = row_id r) fs \<longrightarrow> onDelete r fs = fs)
   \<and> \<not> list_ex (\<lambda>f. flight_id f = row_id a) (apply_all [Insert a, Update a', Delete a] fs)"
proof (intro conjI impI)
  show "onDelete r fs = fs" if "\<not> list_ex (\<lambda>f. flight_id f = row_id r) fs"
    using that by (induction fs) (auto simp: onDelete_def)
  show "\<not> list_ex (\<lambda>f. flight_id f = row_id a) (apply_all [Insert a, Update a', Delete a] fs)"
    by (simp add: onDelete_def list_ex_iff)
qed (simp add: onInsert_def)

theorem realtime_adapter_witness:
  "list_ex (\<lambda>f. flight_id f = row_id (blank_row \<lparr> row_id := ''A'' \<rparr>))
     [fromRow (blank_row \<lparr> row_id := ''A'' \<rparr>)]
   \<and> onInsert (blank_row \<lparr> row_id := ''A'' \<rparr>) [fromRow (blank_row \<lparr> row_id := ''A'' \<rparr>)]
       = [fromRow (blank_row \<lparr> row_id := ''A'' \<rparr>)]
   \<and> \<not> list_ex (\<lambda>f. flight_id f = row_id (blank_row \<lparr> row_id := ''A'' \<rparr>))
         [fromRow (blank_row \<lparr> row_id := ''B'' \<rparr>)]
   \<and> onDelete (blank_row \<lparr> row_id := ''A'' \<rparr>) [fromRow (blank_row \<lparr> row_id := ''B'' \<rparr>)]
       = [fromRow (blank_row \<lparr> row_id := ''B'' \<rparr>)]
   \<and> apply_all [Insert (blank_row \<lparr> row_id := ''A'' \<rparr>),
                 Update (blank_row \<lparr> row_id := ''A'', row_route := Some ''ABC'' \<rparr>),
                 Delete (blank_row \<lparr> row_id := ''A'' \<rparr>)]
        [fromRow (blank_row \<lparr> row_id := ''B'' \<rparr>)]
       = [fromRow (blank_row \<lparr> row_id := ''B'' \<rparr>)]"
  using realtime_adapter [of "blank_row \<lparr> row_id := ''A'' \<rparr>"
      "[fromRow (blank_row \<lparr> row_id := ''A'' \<rparr>)]"]
    realtime_adapter [of "blank_row \<lparr> row_id := ''A'' \<rparr>"
      "[fromRow (blank_row \<lparr> row_id := ''B'' \<rparr>)]"]
  by (simp add: onInsert_def onUpdate_def onDelete_def fromRow_def blank_row_def)

subsection \<open>Rows without a target sort last\<close>

lemma sort_insert_keeps_last:
  assumes past: "\<And>a b. gt_number (cmp a b) (Fin 0) \<Longrightarrow> N b \<Longrightarrow> N a"
    and stay: "\<And>a b. \<not> gt_number (cmp a b) (Fin 0) \<Longrightarrow> N a \<Longrightarrow> N b"
    and srt: "sorted_wrt (\<lambda>x y. N x \<longrightarrow> N y) ys"
  shows "sorted_wrt (\<lambda>x y. N x \<longrightarrow> N y) (sort_insert cmp x ys)"
  using srt
proof (induction ys)
  case Nil
  show ?case by (simp only: sort_insert.simps sorted_wrt.simps list.set ball_empty simp_thms)
next
  case (Cons y ys)
  from Cons.prems have below: "\<forall>z \<in> set ys. N y \<longrightarrow> N z"
    and rest: "sorted_wrt (\<lambda>x y. N x \<longrightarrow> N y) ys"
    unfolding sorted_wrt.simps by blast+
  show ?case
  proof (cases "gt_number (cmp x y) (Fin 0)")
    case True
    have eq: "sort_insert cmp x (y # ys) = y # sort_insert cmp x ys"
      using True by (simp only: sort_insert.simps if_True)
    have tl: "sorted_wrt (\<lambda>x y. N x \<longrightarrow> N y) (sort_insert cmp x ys)"
      using Cons.IH rest by blast
    have hd: "\<forall>z \<in> set (sort_insert cmp x ys). N y \<longrightarrow> N z"
      unfolding set_sort_insert using below past [OF True] by blast
    show ?thesis unfolding eq sorted_wrt.simps using tl hd by blast
  next
    case False
    have eq: "sort_insert cmp x (y # ys) = x # y # ys"
      using False by (simp only: sort_insert.simps if_False)
    have "\<forall>z \<in> set (y # ys). N x \<longrightarrow> N z"
      using below stay [OF False] by (metis set_ConsD)
    then show ?thesis unfolding eq using Cons.prems
      by (metis (mono_tags, lifting) sorted_wrt.simps(2))
  qed
qed

lemma js_sort_keeps_last:
  assumes past: "\<And>a b. gt_number (cmp a b) (Fin 0) \<Longrightarrow> N b \<Longrightarrow> N a"
    and stay: "\<And>a b. \<not> gt_number (cmp a b) (Fin 0) \<Longrightarrow> N a \<Longrightarrow> N b"
  shows "sorted_wrt (\<lambda>x y. N x \<longrightarrow> N y) (js_sort cmp xs)"
proof (induction xs)
  case Nil
  show ?case by (simp only: js_sort.simps sorted_wrt.simps)
next
  case (Cons x xs)
  have "sorted_wrt (\<lambda>x y. N x \<longrightarrow> N y) (sort_insert cmp x (js_sort cmp xs))"
    using past stay Cons.IH by (rule sort_insert_keeps_last)
  then show ?case by (simp only: js_sort.simps)
qed

lemma compare_rows_past:
  "gt_number (compare_rows lc sel a b) (Fin 0) \<Longrightarrow> cell_of (sortField sel) b = CNull
   \<Longrightarrow> cell_of (sortField sel) a = CNull"
  by (simp add: compare_rows_def Let_def split: if_splits)

lemma compare_rows_stay:
  "\<not> gt_number (compare_rows lc sel a b) (Fin 0) \<Longrightarrow> cell_of (sortField sel) a = CNull
   \<Longrightarrow> cell_of (sortField sel) b = CNull"
  by (simp add: compare_rows_def Let_def split: if_splits)

lemma nulls_last_sort:
  "sorted_wrt (\<lambda>x y. cell_of (sortField sel) x = CNull \<longrightarrow> cell_of (sortField sel) y = CNull)
     (js_sort (compare_rows lc sel) rows)"
  by (rule js_sort_keeps_last [of "compare_rows lc sel" "\<lambda>r. cell_of (sortField sel) r = CNull"])
     (erule (1) compare_rows_past, erule (1) compare_rows_stay)

text \<open>
  Claim C9: for every sort field and both directions, the comparator answers 0 for two
  rows whose value is \<open>null\<close>, a positive number when only the first value is \<open>null\<close> and
  a negative number when only the second is; in the sorted table no row with a \<open>null\<close>
  value stands before a row with another value, for every list of rows and so for the
  table that \<open>chartData\<close> returns.
\<close>

theorem null_rows_sort_last:
  "(cell_of (sortField sel) a = CNull \<and> cell_of (sortField sel) b = CNull \<longrightarrow>
      compare_rows localeCompare sel a b = Fin 0)
   \<and> (cell_of (sortField sel) a = CNull \<and> cell_of (sortField sel) b \<noteq> CNull \<longrightarrow>
      compare_rows localeCompare sel a b = Fin 1 \<and> compare_rows localeCompare sel b a = Fin (- 1))
   \<and> sorted_wrt (\<lambda>x y. cell_of (sortField sel) x = CNull \<longrightarrow> cell_of (sortField sel) y = CNull)
        (js_sort (compare_rows localeCompare sel) rows)
   \<and> (case chartData parseInt localeCompare flights targetTimes sel of
        Inl e \<Rightarrow> True
      | Inr table \<Rightarrow>
          sorted_wrt (\<lambda>x y. cell_of (sortField sel) x = CNull \<longrightarrow> cell_of (sortField sel) y = CNull)
            table)"
proof (intro conjI impI)
  show "case chartData parseInt localeCompare flights targetTimes sel of
        Inl e \<Rightarrow> True
      | Inr table \<Rightarrow>
          sorted_wrt (\<lambda>x y. cell_of (sortField sel) x = CNull \<longrightarrow> cell_of (sortField sel) y = CNull)
            table"
    unfolding chartData_def Let_def by (simp add: nulls_last_sort split: sum.split)
qed (simp_all add: compare_rows_def nulls_last_sort)

theorem null_rows_sort_last_witness:
  "cell_of (sortField (all_selected \<lparr> sortField := ''targetTime'', sortDirection := desc \<rparr>))
     (sample_row ''A'' None) = CNull
   \<and> cell_of (sortField (all_selected \<lparr> sortField := ''targetTime'', sortDirection := desc \<rparr>))
     (sample_row ''B'' (Some 3)) \<noteq> CNull
   \<and> compare_rows (\<lambda>x y. Fin 0)
       (all_selected \<lparr> sortField := ''targetTime'', sortDirection := desc \<rparr>)
       (sample_row ''A'' None) (sample_row ''C'' None) = Fin 0
   \<and> compare_rows (\<lambda>x y. Fin 0)
       (all_selected \<lparr> sortField := ''targetTime'', sortDirection := desc \<rparr>)
       (sample_row ''A'' None) (sample_row ''B'' (Some 3)) = Fin 1
   \<and> js_sort (compare_rows (\<lambda>x y. Fin 0)
        (all_selected \<lparr> sortField := ''targetTime'', sortDirection := desc \<rparr>))
        [sample_row ''A'' None, sample_row ''B'' (Some 3), sample_row ''C'' None,
         sample_row ''D'' (Some 5)]
      = [sample_row ''D'' (Some 5), sample_row ''B'' (Some 3), sample_row ''A'' None,
         sample_row ''C'' None]"
proof -
  have evaluated:
    "cell_of (sortField (all_selected \<lparr> sortField := ''targetTime'', sortDirection := desc \<rparr>))
       (sample_row ''A'' None) = CNull
     \<and> cell_of (sortField (all_selected \<lparr> sortField := ''targetTime'', sortDirection := desc \<rparr>))
       (sample_row ''B'' (Some 3)) \<noteq> CNull
     \<and> compare_rows (\<lambda>x y. Fin 0)
         (all_selected \<lparr> sortField := ''targetTime'', sortDirection := desc \<rparr>)
         (sample_row ''A'' None) (sample_row ''C'' None) = Fin 0
     \<and> compare_rows (\<lambda>x y. Fin 0)
         (all_selected \<lparr> sortField := ''targetTime'', sortDirection := desc \<rparr>)
         (sample_row ''A'' None) (sample_row ''B'' (Some 3)) = Fin 1
     \<and> js_sort (compare_rows (\<lambda>x y. Fin 0)
          (all_selected \<lparr> sortField := ''targetTime'', sortDirection := desc \<rparr>))
          [sample_row ''A'' None, sample_row ''B'' (Some 3), sample_row ''C'' None,
           sample_row ''D'' (Some 5)]
        = [sample_row ''D'' (Some 5), sample_row ''B'' (Some 3), sample_row ''A'' None,
           sample_row ''C'' None]"
    by code_simp
  show ?thesis
    using null_rows_sort_last [of "all_selected \<lparr> sortField := ''targetTime'', sortDirection := desc \<rparr>"
      "sample_row ''A'' None" "sample_row ''C'' None" "\<lambda>x y. Fin 0"
      "[sample_row ''A'' None, sample_row ''B'' (Some 3), sample_row ''C'' None,
         sample_row ''D'' (Some 5)]" "\<lambda>s. NaN" "[]" "[]"]
      null_rows_sort_last [of "all_selected \<lparr> sortField := ''targetTime'', sortDirection := desc \<rparr>"
      "sample_row ''A'' None" "sample_row ''B'' (Some 3)" "\<lambda>x y. Fin 0" "[]" "\<lambda>s. NaN" "[]" "[]"]
      evaluated
    by blast
qed

subsection \<open>Monthly trend\<close>

lemma month_index_of_index: "month_index (month_of_index i) = i"
  by (simp add: month_index_def month_of_index_def)













subsection \<open>Hobbs time of the entry form\<close>

lemma hobbs_effect_tach:
  "form_tachStart (hobbs_effect v) = form_tachStart v"
  "form_tachEnd (hobbs_effect v) = form_tachEnd v"
  by (simp_all add: hobbs_effect_def Let_def)

lemma clamped_product_effect: "clamped_product (hobbs_effect v) = clamped_product v"
  by (simp add: clamped_product_def hobbs_effect_tach)

lemma hobbs_effect_writes:
  assumes "form_tachStart v \<noteq> Plain Undefined" and "form_tachEnd v \<noteq> Plain Undefined"
  shows "form_hobbsTime (hobbs_effect v) = Number (Fin (clamped_product v))"
  using assms by (simp add: hobbs_effect_def clamped_product_def Let_def)

lemma form_run_snoc: "form_run (evs @ [ev]) = form_step (form_run evs) ev"
  by (simp add: form_run_def)

lemma apply_event_defined:
  assumes "form_tachStart v \<noteq> Plain Undefined" and "form_tachEnd v \<noteq> Plain Undefined"
  shows "form_tachStart (apply_event ev v) \<noteq> Plain Undefined
         \<and> form_tachEnd (apply_event ev v) \<noteq> Plain Undefined"
  using assms by (cases ev) simp_all

lemma settled_mounted: "settled mounted"
  by (simp add: settled_def mounted_def run_effects_def defaultValues_def hobbs_effect_tach)

lemma settled_step:
  assumes "settled st"
  shows "settled (form_step st ev)"
proof -
  have "form_tachStart (apply_event ev (form_values st)) \<noteq> Plain Undefined
        \<and> form_tachEnd (apply_event ev (form_values st)) \<noteq> Plain Undefined"
    using assms by (intro apply_event_defined) (simp_all add: settled_def)
  then show ?thesis
    by (simp add: settled_def form_step_def run_effects_def Let_def hobbs_effect_tach)
qed

lemma settled_run: "settled (form_run evs)"
proof (induction evs rule: rev_induct)
  case Nil
  show ?case by (simp add: form_run_def settled_mounted)
next
  case (snoc ev evs)
  then show ?case by (simp add: form_run_snoc settled_step)
qed

lemma form_step_unfold:
  "form_step st ev
   = run_effects \<lparr> form_values = apply_event ev (form_values st), seen_deps = seen_deps st \<rparr>"
  by (cases st) (simp add: form_step_def)

lemma changed_deps_run_effect:
  assumes "form_tachStart v \<noteq> Plain Undefined" and "form_tachEnd v \<noteq> Plain Undefined"
    and "seen \<noteq> Some (form_tachStart v, form_tachEnd v)"
  shows "submitted_hobbsTime (run_effects \<lparr> form_values = v, seen_deps = seen \<rparr>)
         = Number (Fin (clamped_product
             (form_values (run_effects \<lparr> form_values = v, seen_deps = seen \<rparr>))))"
  using assms
  by (simp add: run_effects_def Let_def submitted_hobbsTime_def hobbs_effect_writes
      clamped_product_effect)

text \<open>Whatever changes a tach value runs the effect.\<close>

lemma tach_change_runs_effect:
  assumes st: "settled st"
    and ch: "watched (apply_event ev (form_values st)) \<noteq> watched (form_values st)"
  shows "submitted_hobbsTime (form_step st ev)
         = Number (Fin (clamped_product (form_values (form_step st ev))))"
proof -
  have seen: "seen_deps st = Some (watched (form_values st))"
    and ts: "form_tachStart (form_values st) \<noteq> Plain Undefined"
    and te: "form_tachEnd (form_values st) \<noteq> Plain Undefined"
    using st unfolding settled_def watched_def by blast+
  have def: "form_tachStart (apply_event ev (form_values st)) \<noteq> Plain Undefined"
    "form_tachEnd (apply_event ev (form_values st)) \<noteq> Plain Undefined"
    using apply_event_defined [OF ts te, of ev] by blast+
  have "seen_deps st \<noteq> Some (watched (apply_event ev (form_values st)))"
    unfolding seen using ch by (metis option.inject)
  then have "seen_deps st \<noteq> Some (form_tachStart (apply_event ev (form_values st)),
                               form_tachEnd (apply_event ev (form_values st)))"
    unfolding watched_def .
  then show ?thesis
    unfolding form_step_unfold by (rule changed_deps_run_effect [OF def])
qed

text \<open>What leaves both tach values as they were does not run it.\<close>

lemma no_tach_change_no_effect:
  assumes st: "settled st"
    and same: "watched (apply_event ev (form_values st)) = watched (form_values st)"
  shows "form_step st ev
         = \<lparr> form_values = apply_event ev (form_values st), seen_deps = seen_deps st \<rparr>"
proof -
  have "seen_deps st = Some (watched (apply_event ev (form_values st)))"
    using st same unfolding settled_def watched_def by metis
  then have "seen_deps st = Some (form_tachStart (apply_event ev (form_values st)),
                               form_tachEnd (apply_event ev (form_values st)))"
    unfolding watched_def .
  then show ?thesis
    unfolding form_step_unfold by (simp add: run_effects_def Let_def)
qed

lemma kept_load:
  assumes "settled st"
    and "watched (apply_event (LoadFlight flight) (form_values st)) = watched (form_values st)"
  shows "submitted_hobbsTime (form_step st (LoadFlight flight))
         = Number (Fin (field_or_zero (hobbsTime flight)))"
  unfolding no_tach_change_no_effect [OF assms] by (simp add: submitted_hobbsTime_def)

lemma idle_input:
  assumes st: "settled st"
    and ev: "\<And>flight. ev \<noteq> LoadFlight flight"
    and same: "watched (apply_event ev (form_values st)) = watched (form_values st)"
  shows "form_step st ev = st"
proof -
  have "apply_event ev (form_values st) = form_values st"
    using ev same by (cases ev; cases "form_values st") (auto simp: watched_def)
  then show ?thesis
    unfolding no_tach_change_no_effect [OF st same] by (cases st) simp
qed

lemma submitted_cases:
  "submitted_hobbsTime (form_run evs)
     = Number (Fin (clamped_product (form_values (form_run evs))))
   \<or> (\<exists>pre flight post. evs = pre @ LoadFlight flight # post
        \<and> watched (apply_event (LoadFlight flight) (form_values (form_run pre)))
          = watched (form_values (form_run pre))
        \<and> form_run evs = form_run (pre @ [LoadFlight flight])
        \<and> submitted_hobbsTime (form_run evs) = Number (Fin (field_or_zero (hobbsTime flight))))"
proof (induction evs rule: rev_induct)
  case Nil
  have "submitted_hobbsTime (form_run [])
     = Number (Fin (clamped_product (form_values (form_run []))))"
    unfolding form_run_def foldl.simps mounted_def
    by (rule changed_deps_run_effect) (simp_all add: defaultValues_def)
  then show ?case by blast
next
  case (snoc ev evs)
  let ?st = "form_run evs"
  note st = settled_run [of evs]
  show ?case
  proof (cases "watched (apply_event ev (form_values ?st)) = watched (form_values ?st)")
    case False
    from tach_change_runs_effect [OF st False] show ?thesis
      unfolding form_run_snoc by blast
  next
    case True
    show ?thesis
    proof (cases "\<exists>flight. ev = LoadFlight flight")
      case True
      then obtain flight where load: "ev = LoadFlight flight" by blast
      have "submitted_hobbsTime (form_run (evs @ [ev])) = Number (Fin (field_or_zero (hobbsTime flight)))"
        unfolding form_run_snoc load
        by (rule kept_load [OF st \<open>watched (apply_event ev (form_values ?st)) = watched (form_values ?st)\<close> [unfolded load]])
      moreover have "evs @ [ev] = evs @ LoadFlight flight # []"
        using load by simp
      moreover have "form_run (evs @ [ev]) = form_run (evs @ [LoadFlight flight])"
        using load by simp
      moreover have "watched (apply_event (LoadFlight flight) (form_values (form_run evs)))
          = watched (form_values (form_run evs))"
        using \<open>watched (apply_event ev (form_values ?st)) = watched (form_values ?st)\<close>
        unfolding load .
      ultimately show ?thesis by blast
    next
      case False
      then have "\<And>flight. ev \<noteq> LoadFlight flight" by blast
      then have "form_step (form_run evs) ev = form_run evs"
        using \<open>watched (apply_event ev (form_values ?st)) = watched (form_values ?st)\<close>
        by (intro idle_input [OF st])
      then have same: "form_run (evs @ [ev]) = form_run evs"
        unfolding form_run_snoc .
      from snoc.IH show ?thesis
      proof (elim disjE exE conjE)
        assume "submitted_hobbsTime (form_run evs)
                = Number (Fin (clamped_product (form_values (form_run evs))))"
        then show ?thesis unfolding same by blast
      next
        fix pre flight post
        assume "evs = pre @ LoadFlight flight # post"
          and "watched (apply_event (LoadFlight flight) (form_values (form_run pre)))
               = watched (form_values (form_run pre))"
          and "form_run evs = form_run (pre @ [LoadFlight flight])"
          and "submitted_hobbsTime (form_run evs) = Number (Fin (field_or_zero (hobbsTime flight)))"
        moreover from this(1) have "evs @ [ev] = pre @ LoadFlight flight # (post @ [ev])" by simp
        ultimately show ?thesis unfolding same by blast
      qed
    qed
  qed
qed

text \<open>
  Claim C10 as stated (at submission the hobbs time is always 1.2 times the clamped
  tach difference) fails: after an existing flight with hobbs time 2.5 and no tach
  readings is loaded into the freshly mounted form, the form holds the tach values 0
  and 0 that it held before, the effect does not run, and the hobbs time to submit is
  2.5 while the product is 0.
\<close>

theorem loaded_hobbs_time_survives:
  "submitted_hobbsTime (form_run [LoadFlight (blank_flight \<lparr> hobbsTime := Number (Fin (5 / 2)) \<rparr>)])
     = Number (Fin (5 / 2))
   \<and> clamped_product (form_values
         (form_run [LoadFlight (blank_flight \<lparr> hobbsTime := Number (Fin (5 / 2)) \<rparr>)])) = 0"
  by code_simp

text \<open>
  Claim C10, amended. The effect, run on two defined tach values, writes the binary64
  product \<open>max(0, tachEnd - tachStart) * 1.2\<close> over whatever hobbs time the form held.
  Whatever changes the tach start or the tach end of the form, an input as well as the
  load of an existing flight, runs the effect, and the hobbs time to submit is then that
  product. The load of a flight whose tach values are the ones the form already holds
  does not run it, and the hobbs time to submit is then the loaded one. An input that
  leaves both tach values as they were leaves the form as it was. So at submission the
  hobbs time is the product, unless the last thing that altered the form was the load
  of a flight that left both tach values as they were: then it is the hobbs time of
  that flight. Two tach values are the same when the dependency comparison of the
  effect finds them the same, which tells the negative zero from zero.
\<close>

theorem hobbs_time_follows_tach_changes:
  "(form_tachStart v \<noteq> Plain Undefined \<and> form_tachEnd v \<noteq> Plain Undefined \<longrightarrow>
      form_hobbsTime (hobbs_effect v)
      = Number (Fin (fl (max 0 (fl (ensureNumber (plain (form_tachEnd v))
                                    - ensureNumber (plain (form_tachStart v))))
                         * fl (6 / 5)))))
   \<and> (watched (apply_event ev (form_values (form_run evs))) \<noteq> watched (form_values (form_run evs)) \<longrightarrow>
      submitted_hobbsTime (form_run (evs @ [ev]))
      = Number (Fin (clamped_product (form_values (form_run (evs @ [ev]))))))
   \<and> (watched (apply_event (LoadFlight flight) (form_values (form_run evs)))
        = watched (form_values (form_run evs)) \<longrightarrow>
      submitted_hobbsTime (form_run (evs @ [LoadFlight flight]))
      = Number (Fin (field_or_zero (hobbsTime flight))))
   \<and> ((\<forall>loaded. input \<noteq> LoadFlight loaded)
        \<and> watched (apply_event input (form_values (form_run evs)))
          = watched (form_values (form_run evs)) \<longrightarrow>
      form_run (evs @ [input]) = form_run evs)
   \<and> (submitted_hobbsTime (form_run evs)
        = Number (Fin (clamped_product (form_values (form_run evs))))
      \<or> (\<exists>pre loaded post. evs = pre @ LoadFlight loaded # post
           \<and> watched (apply_event (LoadFlight loaded) (form_values (form_run pre)))
             = watched (form_values (form_run pre))
           \<and> form_run evs = form_run (pre @ [LoadFlight loaded])
           \<and> submitted_hobbsTime (form_run evs)
             = Number (Fin (field_or_zero (hobbsTime loaded)))))"
proof (intro conjI impI)
  show "form_hobbsTime (hobbs_effect v)
      = Number (Fin (fl (max 0 (fl (ensureNumber (plain (form_tachEnd v))
                                    - ensureNumber (plain (form_tachStart v))))
                         * fl (6 / 5))))"
    if "form_tachStart v \<noteq> Plain Undefined \<and> form_tachEnd v \<noteq> Plain Undefined"
    using that hobbs_effect_writes [of v] by (simp add: clamped_product_def)
  show "submitted_hobbsTime (form_run (evs @ [ev]))
      = Number (Fin (clamped_product (form_values (form_run (evs @ [ev])))))"
    if "watched (apply_event ev (form_values (form_run evs))) \<noteq> watched (form_values (form_run evs))"
    unfolding form_run_snoc using settled_run that by (rule tach_change_runs_effect)
  show "submitted_hobbsTime (form_run (evs @ [LoadFlight flight]))
      = Number (Fin (field_or_zero (hobbsTime flight)))"
    if "watched (apply_event (LoadFlight flight) (form_values (form_run evs)))
        = watched (form_values (form_run evs))"
    unfolding form_run_snoc using settled_run that by (rule kept_load)
  show "form_run (evs @ [input]) = form_run evs"
    if "(\<forall>loaded. input \<noteq> LoadFlight loaded)
        \<and> watched (apply_event input (form_values (form_run evs)))
          = watched (form_values (form_run evs))"
    unfolding form_run_snoc using that
    by (intro idle_input [OF settled_run]) blast+
  show "submitted_hobbsTime (form_run evs)
        = Number (Fin (clamped_product (form_values (form_run evs))))
      \<or> (\<exists>pre loaded post. evs = pre @ LoadFlight loaded # post
           \<and> watched (apply_event (LoadFlight loaded) (form_values (form_run pre)))
             = watched (form_values (form_run pre))
           \<and> form_run evs = form_run (pre @ [LoadFlight loaded])
           \<and> submitted_hobbsTime (form_run evs)
             = Number (Fin (field_or_zero (hobbsTime loaded))))"
    by (rule submitted_cases)
qed

theorem hobbs_time_follows_tach_changes_witness:
  "(form_tachStart defaultValues \<noteq> Plain Undefined \<and> form_tachEnd defaultValues \<noteq> Plain Undefined)
   \<and> form_hobbsTime (hobbs_effect defaultValues) = Number (Fin 0)
   \<and> watched (apply_event (InputTachEnd (Fin 4)) (form_values (form_run [InputTachStart (Fin 1)])))
       \<noteq> watched (form_values (form_run [InputTachStart (Fin 1)]))
   \<and> submitted_hobbsTime (form_run ([InputTachStart (Fin 1)] @ [InputTachEnd (Fin 4)]))
       = Number (Fin (8106479329266892 / 2251799813685248))
   \<and> watched (apply_event (LoadFlight logged_flight) (form_values (form_run [])))
       \<noteq> watched (form_values (form_run []))
   \<and> submitted_hobbsTime (form_run ([] @ [LoadFlight logged_flight]))
       = Number (Fin (8106479329266892 / 2251799813685248))
   \<and> watched (apply_event (LoadFlight (blank_flight \<lparr> hobbsTime := Number (Fin (5 / 2)) \<rparr>))
         (form_values (form_run [InputTachStartMinusZero])))
       \<noteq> watched (form_values (form_run [InputTachStartMinusZero]))
   \<and> submitted_hobbsTime (form_run ([InputTachStartMinusZero]
         @ [LoadFlight (blank_flight \<lparr> hobbsTime := Number (Fin (5 / 2)) \<rparr>)]))
       = Number (Fin 0)
   \<and> watched (apply_event (LoadFlight (blank_flight \<lparr> hobbsTime := Number (Fin (5 / 2)) \<rparr>))
         (form_values (form_run [])))
       = watched (form_values (form_run []))
   \<and> submitted_hobbsTime (form_run ([] @ [LoadFlight (blank_flight \<lparr> hobbsTime := Number (Fin (5 / 2)) \<rparr>)]))
       = Number (Fin (5 / 2))
   \<and> (\<forall>loaded. InputTachStart (Fin 1) \<noteq> LoadFlight loaded)
   \<and> watched (apply_event (InputTachStart (Fin 1)) (form_values (form_run [InputTachStart (Fin 1)])))
       = watched (form_values (form_run [InputTachStart (Fin 1)]))
   \<and> form_run ([InputTachStart (Fin 1)] @ [InputTachStart (Fin 1)]) = form_run [InputTachStart (Fin 1)]"
proof -
  let ?kept = "blank_flight \<lparr> hobbsTime := Number (Fin (5 / 2)) \<rparr>"
  note typed = hobbs_time_follows_tach_changes
    [of defaultValues "InputTachEnd (Fin 4)" "[InputTachStart (Fin 1)]" ?kept "InputTachStart (Fin 1)"]
  note loaded = hobbs_time_follows_tach_changes
    [of defaultValues "LoadFlight logged_flight" "[]" ?kept "InputTachStart (Fin 1)"]
  note after_minus_zero = hobbs_time_follows_tach_changes
    [of defaultValues "LoadFlight ?kept" "[InputTachStartMinusZero]" ?kept "InputTachStart (Fin 1)"]
  have defined: "form_tachStart defaultValues \<noteq> Plain Undefined
      \<and> form_tachEnd defaultValues \<noteq> Plain Undefined"
    by code_simp
  have typed_changes:
    "watched (apply_event (InputTachEnd (Fin 4)) (form_values (form_run [InputTachStart (Fin 1)])))
       \<noteq> watched (form_values (form_run [InputTachStart (Fin 1)]))"
    by code_simp
  have load_changes:
    "watched (apply_event (LoadFlight logged_flight) (form_values (form_run [])))
       \<noteq> watched (form_values (form_run []))"
    by code_simp
  have zero_changes:
    "watched (apply_event (LoadFlight ?kept) (form_values (form_run [InputTachStartMinusZero])))
       \<noteq> watched (form_values (form_run [InputTachStartMinusZero]))"
    by code_simp
  have load_keeps:
    "watched (apply_event (LoadFlight ?kept) (form_values (form_run [])))
       = watched (form_values (form_run []))"
    by code_simp
  have no_load: "\<forall>loaded. InputTachStart (Fin 1) \<noteq> LoadFlight loaded"
    by simp
  have same_start:
    "watched (apply_event (InputTachStart (Fin 1)) (form_values (form_run [InputTachStart (Fin 1)])))
       = watched (form_values (form_run [InputTachStart (Fin 1)]))"
    by code_simp
  have product_default:
    "Number (Fin (fl (max 0 (fl (ensureNumber (plain (form_tachEnd defaultValues))
        - ensureNumber (plain (form_tachStart defaultValues)))) * fl (6 / 5)))) = Number (Fin 0)"
    by code_simp
  have product_typed:
    "Number (Fin (clamped_product (form_values
        (form_run ([InputTachStart (Fin 1)] @ [InputTachEnd (Fin 4)])))))
     = Number (Fin (8106479329266892 / 2251799813685248))"
    by code_simp
  have product_loaded:
    "Number (Fin (clamped_product (form_values (form_run ([] @ [LoadFlight logged_flight])))))
     = Number (Fin (8106479329266892 / 2251799813685248))"
    by code_simp
  have product_zero:
    "Number (Fin (clamped_product (form_values
        (form_run ([InputTachStartMinusZero] @ [LoadFlight ?kept])))))
     = Number (Fin 0)"
    by code_simp
  have kept_value: "Number (Fin (field_or_zero (hobbsTime ?kept))) = Number (Fin (5 / 2))"
    by code_simp
  from typed defined
  have "form_hobbsTime (hobbs_effect defaultValues)
      = Number (Fin (fl (max 0 (fl (ensureNumber (plain (form_tachEnd defaultValues))
          - ensureNumber (plain (form_tachStart defaultValues)))) * fl (6 / 5))))"
    by blast
  then have r1: "form_hobbsTime (hobbs_effect defaultValues) = Number (Fin 0)"
    using product_default by (rule trans)
  from typed typed_changes
  have "submitted_hobbsTime (form_run ([InputTachStart (Fin 1)] @ [InputTachEnd (Fin 4)]))
      = Number (Fin (clamped_product (form_values
          (form_run ([InputTachStart (Fin 1)] @ [InputTachEnd (Fin 4)])))))"
    by blast
  then have r2: "submitted_hobbsTime (form_run ([InputTachStart (Fin 1)] @ [InputTachEnd (Fin 4)]))
       = Number (Fin (8106479329266892 / 2251799813685248))"
    using product_typed by (rule trans)
  from loaded load_changes
  have "submitted_hobbsTime (form_run ([] @ [LoadFlight logged_flight]))
      = Number (Fin (clamped_product (form_values (form_run ([] @ [LoadFlight logged_flight])))))"
    by blast
  then have r3: "submitted_hobbsTime (form_run ([] @ [LoadFlight logged_flight]))
       = Number (Fin (8106479329266892 / 2251799813685248))"
    using product_loaded by (rule trans)
  from after_minus_zero zero_changes
  have "submitted_hobbsTime (form_run ([InputTachStartMinusZero] @ [LoadFlight ?kept]))
      = Number (Fin (clamped_product (form_values
          (form_run ([InputTachStartMinusZero] @ [LoadFlight ?kept])))))"
    by blast
  then have r3z: "submitted_hobbsTime (form_run ([InputTachStartMinusZero] @ [LoadFlight ?kept]))
       = Number (Fin 0)"
    using product_zero by (rule trans)
  from loaded load_keeps
  have "submitted_hobbsTime (form_run ([] @ [LoadFlight ?kept]))
      = Number (Fin (field_or_zero (hobbsTime ?kept)))"
    by blast
  then have r4: "submitted_hobbsTime (form_run ([] @ [LoadFlight ?kept])) = Number (Fin (5 / 2))"
    using kept_value by (rule trans)
  have r5: "form_run ([InputTachStart (Fin 1)] @ [InputTachStart (Fin 1)]) = form_run [InputTachStart (Fin 1)]"
    using typed no_load same_start by blast
  show ?thesis
    using defined r1 typed_changes r2 load_changes r3 zero_changes r3z load_keeps r4
      no_load same_start r5
    by blast
qed

end
